theory Spec2Isabelle
  imports Complex_Main "HOL-Library.Sublist"
begin

section \<open>JavaScript strings\<close>

text \<open>
  A JavaScript string is a sequence of UTF-16 code units. The model uses \<open>string\<close>: a
  \<open>char\<close> stands for the code unit of the same number, so the model covers the strings
  whose code units are all below 256. \<open>length\<close> is the \<open>.length\<close> of the source: it
  counts code units, not bytes.
\<close>

definition dquote :: char where
  "dquote = CHR 0x22"

definition backslash :: char where
  "backslash = CHR 0x5C"

text \<open>
  The number of bytes a string takes on the wire in UTF-8, the default encoding of
  \<open>req.write\<close> in Node's http module: one byte for a code unit below 128, two for a
  code unit from 128 to 255.
\<close>

definition utf8_length :: "string \<Rightarrow> nat" where
  "utf8_length s = sum_list (map (\<lambda>c. if (of_char c :: nat) < 128 then 1 else 2) s)"

text \<open>
  \<open>indexOf_split pat s\<close> finds the first occurrence of \<open>pat\<close> in \<open>s\<close> and returns
  what stands before it and what stands after it; the empty pattern occurs at position 0.
\<close>

fun indexOf_split :: "string \<Rightarrow> string \<Rightarrow> (string \<times> string) option" where
  "indexOf_split pat [] = (if pat = [] then Some ([], []) else None)"
| "indexOf_split pat (c # cs) =
     (if prefix pat (c # cs) then Some ([], drop (length pat) (c # cs))
      else map_option (\<lambda>(pre, post). (c # pre, post)) (indexOf_split pat cs))"

definition is_digit :: "char \<Rightarrow> bool" where
  "is_digit c = (c \<in> set ''0123456789'')"

definition digit_value :: "char \<Rightarrow> nat" where
  "digit_value c = of_char c - 48"

text \<open>
  ECMAScript's GetSubstitution: the replacement text of \<open>String.prototype.replace\<close> is
  not taken literally. \<open>$$\<close> stands for one dollar sign, \<open>$&\<close> for the matched text,
  \<open>$`\<close> for the text before the match, \<open>$'\<close> for the text after it, and \<open>$n\<close>,
  \<open>$nn\<close> for a capture group when the pattern has that many groups (a two-digit
  reference beyond the number of groups is read as a one-digit reference followed by a
  digit). Everything else is copied.
\<close>

fun GetSubstitution :: "string \<Rightarrow> string \<Rightarrow> string \<Rightarrow> string list \<Rightarrow> string \<Rightarrow> string" where
  "GetSubstitution matched preceding following captures [] = []"
| "GetSubstitution matched preceding following captures [c] = [c]"
| "GetSubstitution matched preceding following captures (c # d # rest) =
     (if c \<noteq> CHR ''$'' then c # GetSubstitution matched preceding following captures (d # rest)
      else if d = CHR ''$'' then CHR ''$'' # GetSubstitution matched preceding following captures rest
      else if d = CHR ''&'' then matched @ GetSubstitution matched preceding following captures rest
      else if d = CHR 0x60 then preceding @ GetSubstitution matched preceding following captures rest
      else if d = CHR 0x27 then following @ GetSubstitution matched preceding following captures rest
      else if is_digit d then
        (case rest of
           e # rest' \<Rightarrow>
             if is_digit e \<and> 10 * digit_value d + digit_value e \<le> length captures then
               (if 1 \<le> 10 * digit_value d + digit_value e
                then captures ! (10 * digit_value d + digit_value e - 1)
                       @ GetSubstitution matched preceding following captures rest'
                else c # d # e # GetSubstitution matched preceding following captures rest')
             else if 1 \<le> digit_value d \<and> digit_value d \<le> length captures
             then captures ! (digit_value d - 1)
                    @ GetSubstitution matched preceding following captures rest
             else c # d # GetSubstitution matched preceding following captures rest
         | [] \<Rightarrow>
             if 1 \<le> digit_value d \<and> digit_value d \<le> length captures
             then captures ! (digit_value d - 1)
             else [c, d])
      else c # GetSubstitution matched preceding following captures (d # rest))"

text \<open>
  \<open>s.replace(searchValue, replaceValue)\<close> with a string pattern: only the first
  occurrence is replaced, by the expansion of the replacement text; a string without
  the pattern is returned as it is.
\<close>

definition js_replace :: "string \<Rightarrow> string \<Rightarrow> string \<Rightarrow> string" where
  "js_replace s searchValue replaceValue =
     (case indexOf_split searchValue s of
        None \<Rightarrow> s
      | Some (preceding, following) \<Rightarrow>
          preceding @ GetSubstitution searchValue preceding following [] replaceValue @ following)"

subsection \<open>The regular expression of raiseEvent\<close>

text \<open>
  \<open>url.replace(/(connection=)([\w]+)/gi, "$1" + connectionName)\<close>: every match of the
  text \<open>connection=\<close> (letters in either case) followed by one or more word characters
  is replaced, from left to right, by the expansion of the replacement text with the
  two groups as captures.
\<close>

definition is_word_char :: "char \<Rightarrow> bool" where
  "is_word_char c =
     (c \<in> set ''abcdefghijklmnopqrstuvwxyzABCDEFGHIJKLMNOPQRSTUVWXYZ0123456789_'')"

definition ascii_upper :: "char \<Rightarrow> char" where
  "ascii_upper c =
     (case map_of (zip ''abcdefghijklmnopqrstuvwxyz'' ''ABCDEFGHIJKLMNOPQRSTUVWXYZ'') c of
        Some u \<Rightarrow> u
      | None \<Rightarrow> c)"

fun ci_prefix :: "string \<Rightarrow> string \<Rightarrow> bool" where
  "ci_prefix [] s = True"
| "ci_prefix (p # ps) [] = False"
| "ci_prefix (p # ps) (c # cs) = (ascii_upper p = ascii_upper c \<and> ci_prefix ps cs)"

definition match_connection :: "string \<Rightarrow> (string \<times> string \<times> string) option" where
  "match_connection s =
     (if ci_prefix ''connection='' s then
        (let t = drop 11 s; g2 = takeWhile is_word_char t in
         if g2 = [] then None else Some (take 11 s, g2, dropWhile is_word_char t))
      else None)"

lemma match_connection_shorter:
  "match_connection s = Some (g1, g2, rest) \<Longrightarrow> length rest < length s"
proof -
  assume m: "match_connection s = Some (g1, g2, rest)"
  define t where "t = drop 11 s"
  from m have g2: "takeWhile is_word_char t \<noteq> []" and rest: "rest = dropWhile is_word_char t"
    by (auto simp: match_connection_def Let_def t_def split: if_splits)
  have "length (takeWhile is_word_char t) + length (dropWhile is_word_char t) = length t"
    by (metis length_append takeWhile_dropWhile_id)
  moreover from g2 have "0 < length (takeWhile is_word_char t)" by simp
  moreover have "length t \<le> length s" by (simp add: t_def)
  ultimately have "length (dropWhile is_word_char t) < length s" by linarith
  then show ?thesis by (simp add: rest)
qed

function replace_connection :: "string \<Rightarrow> string \<Rightarrow> string \<Rightarrow> string" where
  "replace_connection preceding [] replaceValue = []"
| "replace_connection preceding (c # cs) replaceValue =
     (case match_connection (c # cs) of
        Some (g1, g2, rest) \<Rightarrow>
          GetSubstitution (g1 @ g2) preceding rest [g1, g2] replaceValue
            @ replace_connection (preceding @ g1 @ g2) rest replaceValue
      | None \<Rightarrow> c # replace_connection (preceding @ [c]) cs replaceValue)"
  by pat_completeness auto
termination
  by (relation "measure (\<lambda>(p, s, r). length s)") (auto dest: match_connection_shorter)

section \<open>JSON values\<close>

text \<open>
  The values \<open>JSON.parse\<close> can return. Numbers are the integral ones (a JavaScript
  number with a fractional part, or one of magnitude \<open>10\<^sup>2\<^sup>1\<close> or more, whose
  text has an exponent, is outside the model); \<open>undefined\<close> is the \<open>None\<close> of
  \<open>json option\<close>. The members of an object have distinct keys.
\<close>

datatype json =
    JNull
  | JBool bool
  | JNum int
  | JStr string
  | JArr "json list"
  | JObj "(string \<times> json) list"

text \<open>The truth value of a value in a condition: \<open>if (v)\<close>.\<close>

fun truthy :: "json \<Rightarrow> bool" where
  "truthy JNull = False"
| "truthy (JBool b) = b"
| "truthy (JNum n) = (n \<noteq> 0)"
| "truthy (JStr s) = (s \<noteq> [])"
| "truthy (JArr xs) = True"
| "truthy (JObj kvs) = True"

text \<open>
  Reading a property \<open>v.key\<close> of a value that is not \<open>null\<close>, for the keys the client
  reads (\<open>runtimeStatus\<close>, \<open>output\<close>, \<open>id\<close>): a member of an object, \<open>undefined\<close>
  on anything else.
\<close>

fun getProp :: "json \<Rightarrow> string \<Rightarrow> json option" where
  "getProp (JObj kvs) key = map_of kvs key"
| "getProp v key = None"

subsection \<open>JSON.stringify\<close>

definition hex_digit :: "nat \<Rightarrow> char" where
  "hex_digit n = ''0123456789abcdef'' ! (n mod 16)"

definition escape_char :: "char \<Rightarrow> string" where
  "escape_char c =
     (if c = dquote then [backslash, dquote]
      else if c = backslash then [backslash, backslash]
      else if c = CHR 0x08 then [backslash, CHR ''b'']
      else if c = CHR 0x09 then [backslash, CHR ''t'']
      else if c = CHR 0x0A then [backslash, CHR ''n'']
      else if c = CHR 0x0C then [backslash, CHR ''f'']
      else if c = CHR 0x0D then [backslash, CHR ''r'']
      else if (of_char c :: nat) < 32
      then [backslash, CHR ''u'', CHR ''0'', CHR ''0'',
            hex_digit (of_char c div 16), hex_digit (of_char c)]
      else [c])"

definition QuoteJSONString :: "string \<Rightarrow> string" where
  "QuoteJSONString s = dquote # concat (map escape_char s) @ [dquote]"

definition decimal_digit :: "nat \<Rightarrow> char" where
  "decimal_digit n = ''0123456789'' ! (n mod 10)"

fun decimal :: "nat \<Rightarrow> string" where
  "decimal n =
     (if n < 10 then [decimal_digit n] else decimal (n div 10) @ [decimal_digit (n mod 10)])"

declare decimal.simps [simp del]

definition Number_toString :: "int \<Rightarrow> string" where
  "Number_toString n = (if n < 0 then CHR ''-'' # decimal (nat (- n)) else decimal (nat n))"

fun join_comma :: "string list \<Rightarrow> string" where
  "join_comma [] = []"
| "join_comma [x] = x"
| "join_comma (x # y # ys) = x @ '','' @ join_comma (y # ys)"

fun SerializeJSONProperty :: "json \<Rightarrow> string" where
  "SerializeJSONProperty JNull = ''null''"
| "SerializeJSONProperty (JBool b) = (if b then ''true'' else ''false'')"
| "SerializeJSONProperty (JNum n) = Number_toString n"
| "SerializeJSONProperty (JStr s) = QuoteJSONString s"
| "SerializeJSONProperty (JArr xs) = ''['' @ join_comma (map SerializeJSONProperty xs) @ '']''"
| "SerializeJSONProperty (JObj kvs) =
     ''{'' @ join_comma (map (\<lambda>(k, v). QuoteJSONString k @ '':'' @ SerializeJSONProperty v) kvs)
       @ ''}''"

text \<open>\<open>JSON.stringify(v)\<close>: \<open>undefined\<close> for \<open>undefined\<close>, the text of the value otherwise.\<close>

definition JSON_stringify :: "json option \<Rightarrow> string option" where
  "JSON_stringify v = map_option SerializeJSONProperty v"

section \<open>Errors\<close>

text \<open>
  One constructor for each place where the source throws or rejects; the texts of the
  messages are in the comments, their parameters are the constructors' arguments.
\<close>

datatype error =
    EventNameInvalid
      \<comment> \<open>\<open>eventName must be a valid string.\<close>\<close>
  | FunctionNameInvalid
      \<comment> \<open>\<open>orchestratorFunctionName must be a valid string.\<close>\<close>
  | InstanceNotFound string
      \<comment> \<open>\<open>No instance with ID '...' found.\<close>\<close>
  | OnlyJsonSupported
      \<comment> \<open>\<open>Only application/json request content is supported\<close>\<close>
  | RewindOnlyOnFailed
      \<comment> \<open>\<open>The rewind operation is only supported on failed orchestration instances.\<close>\<close>
  | UnrecognizedStatus int json
      \<comment> \<open>getStatus: \<open>Webhook returned unrecognized status ...: ...\<close>\<close>
  | UnrecognizedStatusCode int json
      \<comment> \<open>raiseEvent, rewind, terminate: \<open>Webhook returned unrecognized status code ...: ...\<close>\<close>
  | WebhookFailure string
      \<comment> \<open>startNew: \<open>new Error(res.body)\<close>, with its message\<close>
  | CannotConvertToPrimitive
      \<comment> \<open>the TypeError \<open>Cannot convert object to primitive value\<close>\<close>
  | TimeoutBelowRetry real real
      \<comment> \<open>\<open>Total timeout ... (ms) should be bigger than retry timeout ... (ms)\<close>\<close>
  | UnrecognizedProtocol string
      \<comment> \<open>\<open>Unrecognized request protocol: ... Only http: and https: are accepted.\<close>\<close>
  | InvalidURL
      \<comment> \<open>the TypeError of \<open>new URL(s)\<close> on a text that is not a URL\<close>
  | UndefinedProperty
      \<comment> \<open>the TypeError of reading a property of \<open>undefined\<close>\<close>
  | JSONSyntaxError
      \<comment> \<open>\<open>JSON.parse\<close> on a text that is not JSON\<close>
  | TransportError string
      \<comment> \<open>the error event of the request\<close>

definition bindE :: "error + 'a \<Rightarrow> ('a \<Rightarrow> error + 'b) \<Rightarrow> error + 'b" where
  "bindE r f = (case r of Inl e \<Rightarrow> Inl e | Inr x \<Rightarrow> f x)"

subsection \<open>ToString\<close>

text \<open>
  The conversion of a value to a string, as \<open>new Error(v)\<close> does it for its message:
  a string is itself, an array is its elements joined by commas (\<open>null\<close> counts as the
  empty string there), and an object is the text \<open>[object Object]\<close>, unless it has a
  member \<open>toString\<close>, which is no function in a JSON value and makes the conversion
  throw.
\<close>

fun collectE :: "(error + 'a) list \<Rightarrow> error + 'a list" where
  "collectE [] = Inr []"
| "collectE (x # xs) = bindE x (\<lambda>v. bindE (collectE xs) (\<lambda>vs. Inr (v # vs)))"

fun ToString :: "json \<Rightarrow> error + string" where
  "ToString JNull = Inr ''null''"
| "ToString (JBool b) = Inr (if b then ''true'' else ''false'')"
| "ToString (JNum n) = Inr (Number_toString n)"
| "ToString (JStr s) = Inr s"
| "ToString (JArr xs) =
     bindE (collectE (map (\<lambda>x. if x = JNull then Inr [] else ToString x) xs))
       (\<lambda>parts. Inr (join_comma parts))"
| "ToString (JObj kvs) =
     (if ''toString'' \<in> set (map fst kvs) then Inl CannotConvertToPrimitive
      else Inr ''[object Object]'')"

section \<open>The platform\<close>

text \<open>
  What the code takes from outside the repository is a parameter of the model: the URL
  parser (\<open>new URL(s)\<close>, \<open>None\<close> when it throws), the validator library's \<open>isURL\<close>
  with the client's options, and \<open>JSON.parse\<close> (\<open>None\<close> when it throws).
\<close>

record URL =
  protocol :: string
  hostname :: string
  port :: string
  pathname :: string
  search :: string
  origin :: string

record platform =
  parseURL :: "string \<Rightarrow> URL option"
  isURL :: "string \<Rightarrow> bool"
  JSON_parse :: "string \<Rightarrow> json option"

section \<open>The webhook client\<close>

datatype header_value = HStr string | HNum int

record IncomingMessage =
  statusCode :: int
  headers :: "(string \<times> header_value) list"
  received :: string

record 'b IHttpResponse =
  status :: int
  body :: 'b
  headers :: "(string \<times> header_value) list"

record IRequestOptions =
  hostname :: string
  path :: string
  requestMethod :: string
  headers :: "(string \<times> header_value) list"
  port :: "string option"
  timeout :: "real option"

datatype requestModule = HttpModule | HttpsModule

text \<open>
  A request as it leaves the client: the options given to \<open>request\<close>, the module they
  were given to, and the text written to the request (\<open>None\<close> when nothing is written).
\<close>

record Request =
  options :: IRequestOptions
  via :: requestModule
  written :: "string option"

text \<open>
  \<open>callWebhook\<close>. The last argument is what the other end does with the request, if
  one is sent: an error event with its message, or a response whose body has been
  collected in \<open>received\<close>. The result is the list of the requests sent (none or one)
  and the outcome of the call; a body that \<open>JSON.parse\<close> refuses, which throws in the
  handler of the end of the response, is an error of the call. \<open>input\<close> is \<open>None\<close>
  for \<open>undefined\<close>; any other input is a JSON value, for which \<open>JSON.stringify\<close>
  gives a text, whose \<open>.length\<close> the header takes.
\<close>

definition callWebhook ::
  "platform \<Rightarrow> URL \<Rightarrow> string \<Rightarrow> json option \<Rightarrow> real option \<Rightarrow> string + IncomingMessage
     \<Rightarrow> Request list \<times> (error + json IHttpResponse)" where
  "callWebhook pf url httpMethod input timeoutInMilliseconds answer =
     (let requestData = JSON_stringify input;
          opts = \<lparr>hostname = URL.hostname url,
                  path = pathname url @ search url,
                  requestMethod = httpMethod,
                  headers =
                    [(''Content-Type'', HStr ''application/json''),
                     (''Content-Length'',
                        HNum (case input of
                                Some v \<Rightarrow> int (length (SerializeJSONProperty v))
                              | None \<Rightarrow> 0))],
                  port = (if URL.port url \<noteq> [] then Some (URL.port url) else None),
                  timeout =
                    (case timeoutInMilliseconds of
                       Some t \<Rightarrow> if t \<noteq> 0 then Some (t + 500) else None
                     | None \<Rightarrow> None)\<rparr>;
          requestModule =
            (if protocol url = ''http:'' then Some HttpModule
             else if protocol url = ''https:'' then Some HttpsModule
             else None)
      in case requestModule of
           None \<Rightarrow> ([], Inl (UnrecognizedProtocol (protocol url)))
         | Some m \<Rightarrow>
             (let req = \<lparr>options = opts, via = m,
                         written =
                           (case requestData of
                              Some d \<Rightarrow> if httpMethod = ''POST'' \<and> d \<noteq> [] then Some d else None
                            | None \<Rightarrow> None)\<rparr>
              in case answer of
                   Inl e \<Rightarrow> ([req], Inl (TransportError e))
                 | Inr res \<Rightarrow>
                     (case JSON_parse pf (received res) of
                        None \<Rightarrow> ([req], Inl JSONSyntaxError)
                      | Some bodyObj \<Rightarrow>
                          ([req],
                           Inr \<lparr>status = statusCode res, body = bodyObj,
                                headers = IncomingMessage.headers res\<rparr>))))"

definition get ::
  "platform \<Rightarrow> URL \<Rightarrow> real option \<Rightarrow> string + IncomingMessage
     \<Rightarrow> Request list \<times> (error + json IHttpResponse)" where
  "get pf url timeoutInMilliseconds answer =
     callWebhook pf url ''GET'' None timeoutInMilliseconds answer"

definition post ::
  "platform \<Rightarrow> URL \<Rightarrow> json option \<Rightarrow> real option \<Rightarrow> string + IncomingMessage
     \<Rightarrow> Request list \<times> (error + json IHttpResponse)" where
  "post pf url input timeoutInMilliseconds answer =
     callWebhook pf url ''POST'' input timeoutInMilliseconds answer"

section \<open>The orchestration client\<close>

subsection \<open>Configuration and responses\<close>

text \<open>
  Modelled from the spec: the declarations of \<open>HttpManagementPayload\<close>,
  \<open>OrchestrationClientInputData\<close> and the request types are not among the source files.
  The management payload has the placeholder \<open>id\<close> (here \<open>id'\<close>) and the URLs the
  spec names: status query, send event, terminate, rewind and purge. The other records
  have the fields the client reads: the creation URL template and the task hub name; a
  triggering request has an optional \<open>url\<close> and an optional \<open>http\<close> object with an
  optional \<open>url\<close>.
\<close>

record HttpManagementPayload =
  id' :: string
  statusQueryGetUri :: string
  sendEventPostUri :: string
  terminatePostUri :: string
  rewindPostUri :: string
  purgeHistoryDeleteUri :: string

record HttpCreationPayload =
  createNewInstancePostUri :: string

record OrchestrationClientInputData =
  taskHubName :: string
  creationUrls :: HttpCreationPayload
  managementUrls :: HttpManagementPayload

record TriggerRequest =
  url :: "string option"
  http :: "string option option"

text \<open>
  The body of a response the client builds for its caller: \<open>undefined\<close>, a text (the
  result of \<open>JSON.stringify\<close>), or the object of management links.
\<close>

datatype response_body = Undefined | Text string | Links HttpManagementPayload

definition eventNamePlaceholder :: string where
  "eventNamePlaceholder = ''{eventName}''"



definition reasonPlaceholder :: string where
  "reasonPlaceholder = ''{text}''"

definition showHistoryQueryKey :: string where
  "showHistoryQueryKey = ''showHistory''"

definition showHistoryOutputQueryKey :: string where
  "showHistoryOutputQueryKey = ''showHistoryOutput''"

subsection \<open>Management links\<close>

fun hasValidRequestUrl :: "TriggerRequest option \<Rightarrow> bool" where
  "hasValidRequestUrl None = False"
| "hasValidRequestUrl (Some request) =
     (let isIRequest = (url request \<noteq> None);
          isIHttpRequest = (http request \<noteq> None)
      in isIRequest \<or> isIHttpRequest \<and> http request \<noteq> Some None)"

text \<open>
  \<open>request.url || request.http.url\<close>: the first operand when it is a non-empty
  string; otherwise the second, which throws when \<open>request.http\<close> is undefined and
  which \<open>new URL\<close> reads as the text \<open>undefined\<close> when it is undefined itself.
\<close>

definition requestUrlText :: "TriggerRequest \<Rightarrow> error + string" where
  "requestUrlText request =
     (let alternative =
            (case http request of
               None \<Rightarrow> Inl UndefinedProperty
             | Some None \<Rightarrow> Inr ''undefined''
             | Some (Some u) \<Rightarrow> Inr u)
      in case url request of
           None \<Rightarrow> alternative
         | Some u \<Rightarrow> if u \<noteq> [] then Inr u else alternative)"

definition newURL :: "platform \<Rightarrow> string \<Rightarrow> error + URL" where
  "newURL pf s = (case parseURL pf s of None \<Rightarrow> Inl InvalidURL | Some u \<Rightarrow> Inr u)"

text \<open>The body of the \<open>forEach\<close> of \<open>getClientResponseLinks\<close>, for the value of one key.\<close>

definition clientResponseLink ::
  "platform \<Rightarrow> OrchestrationClientInputData \<Rightarrow> TriggerRequest option \<Rightarrow> string \<Rightarrow> string
     \<Rightarrow> error + string" where
  "clientResponseLink pf clientData request instanceId v =
     bindE
       (case request of
          Some r \<Rightarrow>
            if hasValidRequestUrl request \<and> isURL pf v then
              bindE (requestUrlText r) (\<lambda>t.
              bindE (newURL pf t) (\<lambda>requestUrl.
              bindE (newURL pf v) (\<lambda>dataUrl.
              Inr (js_replace v (origin dataUrl) (origin requestUrl)))))
            else Inr v
        | None \<Rightarrow> Inr v)
       (\<lambda>v'. Inr (js_replace v' (id' (managementUrls clientData)) instanceId))"

definition getClientResponseLinks ::
  "platform \<Rightarrow> OrchestrationClientInputData \<Rightarrow> TriggerRequest option \<Rightarrow> string
     \<Rightarrow> error + HttpManagementPayload" where
  "getClientResponseLinks pf clientData request instanceId =
     (let payload = managementUrls clientData;
          link = clientResponseLink pf clientData request instanceId
      in bindE (link (id' payload)) (\<lambda>a.
         bindE (link (statusQueryGetUri payload)) (\<lambda>b.
         bindE (link (sendEventPostUri payload)) (\<lambda>c.
         bindE (link (terminatePostUri payload)) (\<lambda>d.
         bindE (link (rewindPostUri payload)) (\<lambda>e.
         bindE (link (purgeHistoryDeleteUri payload)) (\<lambda>f.
         Inr \<lparr>id' = a, statusQueryGetUri = b, sendEventPostUri = c,
              terminatePostUri = d, rewindPostUri = e, purgeHistoryDeleteUri = f\<rparr>)))))))"

definition createCheckStatusResponse ::
  "platform \<Rightarrow> OrchestrationClientInputData \<Rightarrow> TriggerRequest option \<Rightarrow> string
     \<Rightarrow> error + response_body IHttpResponse" where
  "createCheckStatusResponse pf clientData request instanceId =
     bindE (getClientResponseLinks pf clientData request instanceId) (\<lambda>httpManagementPayload.
       Inr \<lparr>status = 202,
            body = Links httpManagementPayload,
            headers =
              [(''Content-Type'', HStr ''application/json''),
               (''Location'', HStr (statusQueryGetUri httpManagementPayload)),
               (''Retry-After'', HNum 10)]\<rparr>)"

definition createHttpManagementPayload ::
  "platform \<Rightarrow> OrchestrationClientInputData \<Rightarrow> string \<Rightarrow> error + HttpManagementPayload" where
  "createHttpManagementPayload pf clientData instanceId =
     getClientResponseLinks pf clientData None instanceId"

definition createHttpResponse :: "int \<Rightarrow> json option \<Rightarrow> response_body IHttpResponse" where
  "createHttpResponse code b =
     (let bodyAsJson = JSON_stringify b
      in \<lparr>status = code,
          body = (case bodyAsJson of Some t \<Rightarrow> Text t | None \<Rightarrow> Undefined),
          headers =
            [(''Content-Type'', HStr ''application/json''),
             (''Content-Length'',
                HNum (case bodyAsJson of Some t \<Rightarrow> int (length t) | None \<Rightarrow> 0))]\<rparr>)"

subsection \<open>Operations on one instance\<close>

text \<open>
  Each operation takes, as its last argument, what the other end does with the request
  (see \<open>callWebhook\<close>), and returns the requests it sent and its outcome.
\<close>

definition getStatusUrl ::
  "OrchestrationClientInputData \<Rightarrow> string \<Rightarrow> bool option \<Rightarrow> bool option \<Rightarrow> string" where
  "getStatusUrl clientData instanceId showHistory showHistoryOutput =
     (let template = statusQueryGetUri (managementUrls clientData);
          idPlacholder = id' (managementUrls clientData);
          webhookUrl = js_replace template idPlacholder instanceId;
          webhookUrl =
            (if showHistory = Some True
             then webhookUrl @ ''&'' @ showHistoryQueryKey @ ''=true'' else webhookUrl);
          webhookUrl =
            (if showHistoryOutput = Some True
             then webhookUrl @ ''&'' @ showHistoryOutputQueryKey @ ''=true'' else webhookUrl)
      in webhookUrl)"

definition getStatus ::
  "platform \<Rightarrow> OrchestrationClientInputData \<Rightarrow> string \<Rightarrow> bool option \<Rightarrow> bool option
     \<Rightarrow> string + IncomingMessage \<Rightarrow> Request list \<times> (error + json)" where
  "getStatus pf clientData instanceId showHistory showHistoryOutput answer =
     (case newURL pf (getStatusUrl clientData instanceId showHistory showHistoryOutput) of
        Inl e \<Rightarrow> ([], Inl e)
      | Inr u \<Rightarrow>
          (case get pf u None answer of
             (sent, Inl e) \<Rightarrow> (sent, Inl e)
           | (sent, Inr res) \<Rightarrow>
               if status res = 200 \<or> status res = 202 \<or> status res = 400
                  \<or> status res = 404 \<or> status res = 500
               then (sent, Inr (body res))
               else (sent, Inl (UnrecognizedStatus (status res) (body res)))))"

definition raiseEventUrl ::
  "OrchestrationClientInputData \<Rightarrow> string \<Rightarrow> string \<Rightarrow> string option \<Rightarrow> string option
     \<Rightarrow> string" where
  "raiseEventUrl clientData instanceId eventName taskHubName' connectionName =
     (let idPlaceholder = id' (managementUrls clientData);
          u = js_replace
                (js_replace (sendEventPostUri (managementUrls clientData)) idPlaceholder instanceId)
                eventNamePlaceholder eventName;
          u = (case taskHubName' of
                 Some h \<Rightarrow> if h \<noteq> [] then js_replace u (taskHubName clientData) h else u
               | None \<Rightarrow> u);
          u = (case connectionName of
                 Some c \<Rightarrow> if c \<noteq> [] then replace_connection [] u (''$1'' @ c) else u
               | None \<Rightarrow> u)
      in u)"

definition raiseEvent ::
  "platform \<Rightarrow> OrchestrationClientInputData \<Rightarrow> string \<Rightarrow> string \<Rightarrow> json option
     \<Rightarrow> string option \<Rightarrow> string option \<Rightarrow> string + IncomingMessage
     \<Rightarrow> Request list \<times> (error + unit)" where
  "raiseEvent pf clientData instanceId eventName eventData taskHubName' connectionName answer =
     (if eventName = [] then ([], Inl EventNameInvalid)
      else
        case newURL pf (raiseEventUrl clientData instanceId eventName taskHubName' connectionName) of
          Inl e \<Rightarrow> ([], Inl e)
        | Inr u \<Rightarrow>
            (case post pf u eventData None answer of
               (sent, Inl e) \<Rightarrow> (sent, Inl e)
             | (sent, Inr res) \<Rightarrow>
                 if status res = 202 \<or> status res = 410 then (sent, Inr ())
                 else if status res = 404 then (sent, Inl (InstanceNotFound instanceId))
                 else if status res = 400 then (sent, Inl OnlyJsonSupported)
                 else (sent, Inl (UnrecognizedStatusCode (status res) (body res)))))"

definition rewindUrl :: "OrchestrationClientInputData \<Rightarrow> string \<Rightarrow> string \<Rightarrow> string" where
  "rewindUrl clientData instanceId reason =
     (let idPlaceholder = id' (managementUrls clientData)
      in js_replace
           (js_replace (rewindPostUri (managementUrls clientData)) idPlaceholder instanceId)
           reasonPlaceholder reason)"

definition rewind ::
  "platform \<Rightarrow> OrchestrationClientInputData \<Rightarrow> string \<Rightarrow> string \<Rightarrow> string + IncomingMessage
     \<Rightarrow> Request list \<times> (error + unit)" where
  "rewind pf clientData instanceId reason answer =
     (case newURL pf (rewindUrl clientData instanceId reason) of
        Inl e \<Rightarrow> ([], Inl e)
      | Inr u \<Rightarrow>
          (case post pf u None None answer of
             (sent, Inl e) \<Rightarrow> (sent, Inl e)
           | (sent, Inr res) \<Rightarrow>
               if status res = 202 then (sent, Inr ())
               else if status res = 404 then (sent, Inl (InstanceNotFound instanceId))
               else if status res = 410 then (sent, Inl RewindOnlyOnFailed)
               else (sent, Inl (UnrecognizedStatusCode (status res) (body res)))))"



definition terminateUrl :: "OrchestrationClientInputData \<Rightarrow> string \<Rightarrow> string \<Rightarrow> string" where
  "terminateUrl clientData instanceId reason =
     (let idPlaceholder = id' (managementUrls clientData)
      in js_replace
           (js_replace (terminatePostUri (managementUrls clientData)) idPlaceholder instanceId)
           reasonPlaceholder reason)"

definition terminate ::
  "platform \<Rightarrow> OrchestrationClientInputData \<Rightarrow> string \<Rightarrow> string \<Rightarrow> string + IncomingMessage
     \<Rightarrow> Request list \<times> (error + unit)" where
  "terminate pf clientData instanceId reason answer =
     (case newURL pf (terminateUrl clientData instanceId reason) of
        Inl e \<Rightarrow> ([], Inl e)
      | Inr u \<Rightarrow>
          (case post pf u None None answer of
             (sent, Inl e) \<Rightarrow> (sent, Inl e)
           | (sent, Inr res) \<Rightarrow>
               if status res = 202 \<or> status res = 410 then (sent, Inr ())
               else if status res = 404 then (sent, Inl (InstanceNotFound instanceId))
               else (sent, Inl (UnrecognizedStatusCode (status res) (body res)))))"

subsection \<open>Waiting for completion\<close>

text \<open>
  Modelled from the spec: the enumeration \<open>OrchestrationRuntimeStatus\<close> is declared
  outside the source files. Its members are the ones the spec lists; the value of a
  member in a status object is the string of its name.
\<close>

datatype OrchestrationRuntimeStatus =
    Running | Completed | ContinuedAsNew | Failed | Canceled | Terminated | Pending | Unknown

fun runtimeStatusValue :: "OrchestrationRuntimeStatus \<Rightarrow> json" where
  "runtimeStatusValue Running = JStr ''Running''"
| "runtimeStatusValue Completed = JStr ''Completed''"
| "runtimeStatusValue ContinuedAsNew = JStr ''ContinuedAsNew''"
| "runtimeStatusValue Failed = JStr ''Failed''"
| "runtimeStatusValue Canceled = JStr ''Canceled''"
| "runtimeStatusValue Terminated = JStr ''Terminated''"
| "runtimeStatusValue Pending = JStr ''Pending''"
| "runtimeStatusValue Unknown = JStr ''Unknown''"

text \<open>
  The \<open>if (status) { switch (status.runtimeStatus) ... }\<close> of the loop: the response
  returned for a status that ends the wait, \<open>None\<close> when the loop goes on to the clock.
\<close>

definition terminalResponse :: "json \<Rightarrow> response_body IHttpResponse option" where
  "terminalResponse st =
     (if truthy st then
        (let runtimeStatus = getProp st ''runtimeStatus'' in
         if runtimeStatus = Some (runtimeStatusValue Completed)
         then Some (createHttpResponse 200 (getProp st ''output''))
         else if runtimeStatus = Some (runtimeStatusValue Canceled)
                 \<or> runtimeStatus = Some (runtimeStatusValue Terminated)
         then Some (createHttpResponse 200 (Some st))
         else if runtimeStatus = Some (runtimeStatusValue Failed)
         then Some (createHttpResponse 500 (Some st))
         else None)
      else None)"

text \<open>What the loop does, as seen from outside: the requests it sends and its sleeps.\<close>

datatype event = Sent Request | Slept real

text \<open>
  The \<open>while (true)\<close> loop. The outside world is the list of what each iteration meets:
  what the other end does with the status request, and the value of
  \<open>hrElapsedMilliseconds\<close> the clock gives in that iteration (read after the status has
  arrived; \<open>process.hrtime\<close> and \<open>Utils.getHrMilliseconds\<close> are not among the source
  files, a number of milliseconds is a \<open>real\<close>). The result is the events of the loop
  and its outcome; the outcome is \<open>None\<close> when the list ends before the loop does.
\<close>

fun pollLoop ::
  "platform \<Rightarrow> OrchestrationClientInputData \<Rightarrow> TriggerRequest option \<Rightarrow> string \<Rightarrow> real \<Rightarrow> real
     \<Rightarrow> ((string + IncomingMessage) \<times> real) list
     \<Rightarrow> event list \<times> (error + response_body IHttpResponse) option" where
  "pollLoop pf clientData request instanceId timeoutInMilliseconds retryIntervalInMilliseconds [] =
     ([], None)"
| "pollLoop pf clientData request instanceId timeoutInMilliseconds retryIntervalInMilliseconds
     ((answer, hrElapsedMilliseconds) # world) =
     (case getStatus pf clientData instanceId None None answer of
        (sent, Inl e) \<Rightarrow> (map Sent sent, Some (Inl e))
      | (sent, Inr st) \<Rightarrow>
          (case terminalResponse st of
             Some response \<Rightarrow> (map Sent sent, Some (Inr response))
           | None \<Rightarrow>
               if hrElapsedMilliseconds < timeoutInMilliseconds then
                 (let remainingTime = timeoutInMilliseconds - hrElapsedMilliseconds;
                      pause = (if remainingTime > retryIntervalInMilliseconds
                               then retryIntervalInMilliseconds else remainingTime);
                      (events, outcome) =
                        pollLoop pf clientData request instanceId timeoutInMilliseconds
                          retryIntervalInMilliseconds world
                  in (map Sent sent @ Slept pause # events, outcome))
               else (map Sent sent,
                     Some (createCheckStatusResponse pf clientData request instanceId))))"

text \<open>The default values of the two optional parameters.\<close>

definition timeoutOf :: "real option \<Rightarrow> real" where
  "timeoutOf timeoutArg = (case timeoutArg of Some t \<Rightarrow> t | None \<Rightarrow> 10000)"

definition retryIntervalOf :: "real option \<Rightarrow> real" where
  "retryIntervalOf retryIntervalArg = (case retryIntervalArg of Some r \<Rightarrow> r | None \<Rightarrow> 1000)"

definition waitForCompletionOrCreateCheckStatusResponse ::
  "platform \<Rightarrow> OrchestrationClientInputData \<Rightarrow> TriggerRequest option \<Rightarrow> string
     \<Rightarrow> real option \<Rightarrow> real option \<Rightarrow> ((string + IncomingMessage) \<times> real) list
     \<Rightarrow> event list \<times> (error + response_body IHttpResponse) option" where
  "waitForCompletionOrCreateCheckStatusResponse pf clientData request instanceId
     timeoutArg retryIntervalArg world =
     (let timeoutInMilliseconds = timeoutOf timeoutArg;
          retryIntervalInMilliseconds = retryIntervalOf retryIntervalArg
      in if retryIntervalInMilliseconds > timeoutInMilliseconds
         then ([], Some (Inl (TimeoutBelowRetry timeoutInMilliseconds retryIntervalInMilliseconds)))
         else pollLoop pf clientData request instanceId timeoutInMilliseconds
                retryIntervalInMilliseconds world)"

text \<open>
  An iteration after which the loop goes round again: the status arrived, it does not end
  the wait, and the clock is still below the timeout.
\<close>

definition continues ::
  "platform \<Rightarrow> OrchestrationClientInputData \<Rightarrow> string \<Rightarrow> real
     \<Rightarrow> (string + IncomingMessage) \<times> real \<Rightarrow> bool" where
  "continues pf clientData instanceId timeoutInMilliseconds observation =
     (case snd (getStatus pf clientData instanceId None None (fst observation)) of
        Inl e \<Rightarrow> False
      | Inr st \<Rightarrow> terminalResponse st = None \<and> snd observation < timeoutInMilliseconds)"

text \<open>
  The events of a run of iterations that all continue, in the words of the spec: each
  sends its status request and then sleeps for the smaller of the retry interval and the
  time left to the timeout.
\<close>

definition continuedEvents ::
  "platform \<Rightarrow> OrchestrationClientInputData \<Rightarrow> string \<Rightarrow> real \<Rightarrow> real
     \<Rightarrow> ((string + IncomingMessage) \<times> real) list \<Rightarrow> event list" where
  "continuedEvents pf clientData instanceId timeoutInMilliseconds retryIntervalInMilliseconds world =
     concat (map (\<lambda>(answer, hrElapsedMilliseconds).
                    map Sent (fst (getStatus pf clientData instanceId None None answer))
                      @ [Slept (min retryIntervalInMilliseconds
                                  (timeoutInMilliseconds - hrElapsedMilliseconds))])
                 world)"

section \<open>Predicates of the specification\<close>

text \<open>
  The result of replacing the first occurrence of a placeholder in a template by a
  value: what stands before the first occurrence and what stands after it are kept, and a
  template without the placeholder is left as it is.
\<close>

definition first_occurrence_replaced :: "string \<Rightarrow> string \<Rightarrow> string \<Rightarrow> string \<Rightarrow> bool" where
  "first_occurrence_replaced template placeholder v result =
     (if sublist placeholder template
      then \<exists>pre suf. template = pre @ placeholder @ suf
             \<and> (\<forall>pre' suf'. template = pre' @ placeholder @ suf' \<longrightarrow> length pre \<le> length pre')
             \<and> result = pre @ v @ suf
      else result = template)"

text \<open>
  The origin of the URL of the triggering request,
  \<open>new URL(request.url || request.http.url).origin\<close>: \<open>None\<close> when there is no
  request or the expression throws.
\<close>

definition requestOrigin :: "platform \<Rightarrow> TriggerRequest option \<Rightarrow> string option" where
  "requestOrigin pf request =
     (case request of
        None \<Rightarrow> None
      | Some r \<Rightarrow>
          (case requestUrlText r of
             Inl e \<Rightarrow> None
           | Inr t \<Rightarrow> map_option origin (parseURL pf t)))"

text \<open>
  Host rewriting, in the words of the spec: when the request carries a usable URL, a
  template that is a URL has the first occurrence of its own origin replaced by the
  origin of the request; any other template is left as it is.
\<close>

definition origin_rewritten ::
  "platform \<Rightarrow> TriggerRequest option \<Rightarrow> string \<Rightarrow> string \<Rightarrow> bool" where
  "origin_rewritten pf request template result =
     (if hasValidRequestUrl request \<and> isURL pf template
      then \<exists>requestOrigin' dataUrl.
             requestOrigin pf request = Some requestOrigin'
             \<and> parseURL pf template = Some dataUrl
             \<and> first_occurrence_replaced template (origin dataUrl) requestOrigin' result
      else result = template)"

text \<open>A management link: the template after host rewriting, with the id put in.\<close>

definition link_built ::
  "platform \<Rightarrow> TriggerRequest option \<Rightarrow> string \<Rightarrow> string \<Rightarrow> string \<Rightarrow> string \<Rightarrow> bool" where
  "link_built pf request placeholder instanceId template link =
     (\<exists>rewritten. origin_rewritten pf request template rewritten
        \<and> first_occurrence_replaced rewritten placeholder instanceId link)"

text \<open>A text of code units below 128, which take one byte each on the wire.\<close>

definition is_ascii :: "string \<Rightarrow> bool" where
  "is_ascii s = list_all (\<lambda>c. (of_char c :: nat) < 128) s"

section \<open>A test double\<close>

text \<open>
  A platform, a configuration and answers to evaluate the operations on: a URL parser
  for plain http URLs, a \<open>JSON.parse\<close> that knows the texts of a few values,
  templates of the shape the host supplies, and a triggering request that came in on
  another origin.
\<close>

definition demo_URL_on :: "string \<Rightarrow> string \<Rightarrow> string \<Rightarrow> URL" where
  "demo_URL_on host p q =
     \<lparr>protocol = ''http:'', hostname = host, port = [], pathname = p, search = q,
      origin = ''http://'' @ host\<rparr>"

definition demo_URL :: "string \<Rightarrow> string \<Rightarrow> URL" where
  "demo_URL p q = demo_URL_on ''h'' p q"

definition demo_parseURL :: "string \<Rightarrow> URL option" where
  "demo_parseURL s =
     (if prefix ''http://'' s
      then (let rest = dropWhile (\<lambda>c. c \<noteq> CHR ''/'') (drop 7 s)
            in Some (demo_URL_on (takeWhile (\<lambda>c. c \<noteq> CHR ''/'') (drop 7 s))
                       (takeWhile (\<lambda>c. c \<noteq> CHR ''?'') rest)
                       (dropWhile (\<lambda>c. c \<noteq> CHR ''?'') rest)))
      else None)"

definition running :: json where
  "running = JObj [(''runtimeStatus'', JStr ''Running'')]"

definition completed :: json where
  "completed = JObj [(''runtimeStatus'', JStr ''Completed''), (''output'', JObj [(''x'', JNum 1)])]"

definition failed :: json where
  "failed = JObj [(''runtimeStatus'', JStr ''Failed'')]"

definition terminated :: json where
  "terminated = JObj [(''runtimeStatus'', JStr ''Terminated'')]"

definition started :: json where
  "started = JObj [(''id'', JStr ''abc123'')]"

definition boom :: json where
  "boom = JStr ''boom''"

definition demo_values :: "json list" where
  "demo_values = [running, completed, failed, terminated, started, boom, JNull]"

definition demo_platform :: platform where
  "demo_platform =
     \<lparr>parseURL = demo_parseURL,
      isURL = (\<lambda>s. prefix ''http://'' s \<or> prefix ''https://'' s),
      JSON_parse = (\<lambda>t. find (\<lambda>v. SerializeJSONProperty v = t) demo_values)\<rparr>"

definition demo_clientData :: OrchestrationClientInputData where
  "demo_clientData =
     \<lparr>taskHubName = ''Hub'',
      creationUrls =
        \<lparr>createNewInstancePostUri = ''http://h/o/{functionName}[/{instanceId}]?code=K''\<rparr>,
      managementUrls =
        \<lparr>id' = ''INSTANCEID'',
         statusQueryGetUri = ''http://h/i/INSTANCEID?code=K'',
         sendEventPostUri = ''http://h/i/INSTANCEID/raiseEvent/{eventName}?code=K'',
         terminatePostUri = ''http://h/i/INSTANCEID/terminate?reason={text}'',
         rewindPostUri = ''http://h/i/INSTANCEID/rewind?reason={text}'',
         purgeHistoryDeleteUri = ''http://h/i/INSTANCEID?code=K''\<rparr>\<rparr>"

definition demo_request :: TriggerRequest where
  "demo_request = \<lparr>url = Some ''http://g/api/start'', http = None\<rparr>"

text \<open>A configuration whose status template has the placeholder twice.\<close>

definition twice_clientData :: OrchestrationClientInputData where
  "twice_clientData =
     demo_clientData
       \<lparr>managementUrls :=
          (managementUrls demo_clientData)
            \<lparr>statusQueryGetUri := ''http://h/i/INSTANCEID?id=INSTANCEID''\<rparr>\<rparr>"

definition reply :: "int \<Rightarrow> json \<Rightarrow> string + IncomingMessage" where
  "reply code v = Inr \<lparr>statusCode = code, headers = [], received = SerializeJSONProperty v\<rparr>"

section \<open>Properties\<close>

subsection \<open>Evaluation\<close>

lemmas stringify_simps =
  QuoteJSONString_def escape_char_def dquote_def backslash_def Number_toString_def
  decimal.simps decimal_digit_def hex_digit_def JSON_stringify_def

lemmas demo_simps =
  demo_platform_def demo_parseURL_def demo_URL_def demo_URL_on_def demo_clientData_def
  demo_values_def reply_def demo_request_def
  running_def completed_def failed_def terminated_def started_def boom_def

lemma bindE_simps [simp]:
  "bindE (Inl e) f = Inl e"
  "bindE (Inr x) f = f x"
  by (simp_all add: bindE_def)

lemma demo_parse:
  "JSON_parse demo_platform (SerializeJSONProperty running) = Some running"
  "JSON_parse demo_platform (SerializeJSONProperty completed) = Some completed"
  "JSON_parse demo_platform (SerializeJSONProperty failed) = Some failed"
  "JSON_parse demo_platform (SerializeJSONProperty terminated) = Some terminated"
  "JSON_parse demo_platform (SerializeJSONProperty started) = Some started"
  "JSON_parse demo_platform (SerializeJSONProperty boom) = Some boom"
  "JSON_parse demo_platform (SerializeJSONProperty JNull) = Some JNull"
  by (simp_all add: demo_simps stringify_simps)

lemma callWebhook_answered:
  assumes "protocol u = ''http:'' \<or> protocol u = ''https:''"
    and "JSON_parse pf (received msg) = Some v"
  shows "snd (callWebhook pf u m input t (Inr msg))
           = Inr \<lparr>status = statusCode msg, body = v, headers = IncomingMessage.headers msg\<rparr>"
  using assms by (auto simp: callWebhook_def Let_def)

lemma demo_answered:
  assumes "JSON_parse demo_platform (SerializeJSONProperty v) = Some v"
  shows "callWebhook demo_platform (demo_URL p q) m input t (reply code v)
           = (fst (callWebhook demo_platform (demo_URL p q) m input t (reply code v)),
              Inr \<lparr>status = code, body = v, headers = []\<rparr>)"
  using callWebhook_answered [of "demo_URL p q" demo_platform _ v m input t] assms
  by (simp add: reply_def demo_URL_def demo_URL_on_def prod_eq_iff)

lemma demo_status_url:
  "newURL demo_platform (getStatusUrl demo_clientData ''abc'' None None)
     = Inr (demo_URL ''/i/abc'' ''?code=K'')"
  by (simp add: newURL_def getStatusUrl_def js_replace_def demo_simps)






subsection \<open>Status codes of getStatus\<close>



subsection \<open>Outcomes of raiseEvent\<close>



subsection \<open>Outcomes of startNew\<close>


lemma ToString_object:
  "''toString'' \<notin> set (map fst kvs) \<Longrightarrow> ToString (JObj kvs) = Inr ''[object Object]''"
  by simp




subsection \<open>Outcomes of terminate and rewind\<close>



subsection \<open>The polling loop\<close>

lemma getProp_Some_truthy: "getProp st key = Some v \<Longrightarrow> truthy st"
  by (cases st) simp_all

lemma terminalResponse_Completed:
  "getProp st ''runtimeStatus'' = Some (runtimeStatusValue Completed) \<Longrightarrow>
     terminalResponse st = Some (createHttpResponse 200 (getProp st ''output''))"
  by (simp add: terminalResponse_def getProp_Some_truthy)

lemma terminalResponse_Canceled_Terminated:
  "getProp st ''runtimeStatus'' = Some (runtimeStatusValue Canceled)
     \<or> getProp st ''runtimeStatus'' = Some (runtimeStatusValue Terminated) \<Longrightarrow>
     terminalResponse st = Some (createHttpResponse 200 (Some st))"
  by (auto simp: terminalResponse_def getProp_Some_truthy)

lemma terminalResponse_Failed:
  "getProp st ''runtimeStatus'' = Some (runtimeStatusValue Failed) \<Longrightarrow>
     terminalResponse st = Some (createHttpResponse 500 (Some st))"
  by (simp add: terminalResponse_def getProp_Some_truthy)

lemma terminalResponse_None_iff:
  "terminalResponse st = None \<longleftrightarrow>
     getProp st ''runtimeStatus'' \<notin>
       {Some (runtimeStatusValue Completed), Some (runtimeStatusValue Canceled),
        Some (runtimeStatusValue Terminated), Some (runtimeStatusValue Failed)}"
proof (cases "truthy st")
  case True
  then show ?thesis by (simp add: terminalResponse_def Let_def)
next
  case False
  then have "getProp st ''runtimeStatus'' = None"
    using getProp_Some_truthy by (cases "getProp st ''runtimeStatus''") auto
  with False show ?thesis by (simp add: terminalResponse_def)
qed

lemma pause_min:
  "(if (t::real) - e > r then r else t - e) = min r (t - e)"
  by (simp add: min_def)

lemma pollLoop_continued:
  assumes "\<forall>ob \<in> set earlier. continues pf clientData instanceId t ob"
  shows "pollLoop pf clientData request instanceId t r (earlier @ later)
           = (continuedEvents pf clientData instanceId t r earlier
                @ fst (pollLoop pf clientData request instanceId t r later),
              snd (pollLoop pf clientData request instanceId t r later))"
  using assms
proof (induction earlier)
  case Nil
  then show ?case by (simp add: continuedEvents_def)
next
  case (Cons ob earlier)
  obtain answer e where ob: "ob = (answer, e)" by (cases ob)
  from Cons.prems have c: "continues pf clientData instanceId t (answer, e)"
    and rest: "\<forall>ob \<in> set earlier. continues pf clientData instanceId t ob"
    by (simp_all add: ob)
  obtain sent st where g: "getStatus pf clientData instanceId None None answer = (sent, Inr st)"
    and nt: "terminalResponse st = None" and lt: "e < t"
    using c by (cases "getStatus pf clientData instanceId None None answer")
      (auto simp: continues_def split: sum.splits)
  show ?case
    using Cons.IH [OF rest] g nt lt
    by (simp add: ob continuedEvents_def pause_min split: prod.splits)
qed

lemma pollLoop_step:
  assumes "getStatus pf clientData instanceId None None answer = (sent, Inr st)"
  shows "snd (pollLoop pf clientData request instanceId t r ((answer, e) # later))
           = (case terminalResponse st of
                Some response \<Rightarrow> Some (Inr response)
              | None \<Rightarrow>
                  if e < t then snd (pollLoop pf clientData request instanceId t r later)
                  else Some (createCheckStatusResponse pf clientData request instanceId))"
  using assms by (simp add: Let_def split: option.splits prod.splits)

lemma demo_getStatus:
  assumes "JSON_parse demo_platform (SerializeJSONProperty v) = Some v"
  shows "snd (getStatus demo_platform demo_clientData ''abc'' None None (reply code v))
           = (if code = 200 \<or> code = 202 \<or> code = 400 \<or> code = 404 \<or> code = 500
              then Inr v else Inl (UnrecognizedStatus code v))"
proof -
  have "get demo_platform (demo_URL ''/i/abc'' ''?code=K'') None (reply code v)
          = (fst (get demo_platform (demo_URL ''/i/abc'' ''?code=K'') None (reply code v)),
             Inr \<lparr>status = code, body = v, headers = []\<rparr>)"
    unfolding get_def using assms by (rule demo_answered)
  then show ?thesis
    using demo_status_url
    by (cases "get demo_platform (demo_URL ''/i/abc'' ''?code=K'') None (reply code v)")
      (auto simp: getStatus_def)
qed

lemma demo_terminal:
  "terminalResponse running = None"
  "getProp completed ''runtimeStatus'' = Some (runtimeStatusValue Completed)"
  "getProp completed ''output'' = Some (JObj [(''x'', JNum 1)])"
  "getProp terminated ''runtimeStatus'' = Some (runtimeStatusValue Terminated)"
  "getProp failed ''runtimeStatus'' = Some (runtimeStatusValue Failed)"
  "getProp running ''runtimeStatus'' = Some (runtimeStatusValue Running)"
  by (simp_all add: terminalResponse_def running_def completed_def terminated_def failed_def)

lemma demo_continues:
  "e < t \<Longrightarrow> continues demo_platform demo_clientData ''abc'' t (reply 202 running, e)"
  by (simp add: continues_def demo_getStatus [OF demo_parse(1)] demo_terminal)

lemma callWebhook_errors:
  "snd (callWebhook pf u m input t answer) = Inl e \<Longrightarrow>
     e = UnrecognizedProtocol (protocol u) \<or> (\<exists>msg. e = TransportError msg) \<or> e = JSONSyntaxError"
  by (auto simp: callWebhook_def Let_def split: if_splits sum.splits option.splits)

lemma getStatus_errors:
  assumes "snd (getStatus pf clientData instanceId showHistory showHistoryOutput answer) = Inl e"
  shows "e \<noteq> TimeoutBelowRetry a b"
proof (cases "newURL pf (getStatusUrl clientData instanceId showHistory showHistoryOutput)")
  case (Inl x)
  then show ?thesis
    using assms by (auto simp: getStatus_def newURL_def split: option.splits)
next
  case (Inr u)
  show ?thesis
  proof (cases "get pf u None answer")
    case (Pair sent r)
    show ?thesis
    proof (cases r)
      case (Inl x)
      with Pair have "snd (callWebhook pf u ''GET'' None None answer) = Inl x"
        by (simp add: get_def)
      from callWebhook_errors [OF this] Inl Pair Inr assms show ?thesis
        by (auto simp: getStatus_def)
    next
      case (Inr res)
      with Pair \<open>newURL pf _ = Inr u\<close> assms show ?thesis
        by (auto simp: getStatus_def split: if_splits)
    qed
  qed
qed

lemma clientResponseLink_errors:
  "clientResponseLink pf clientData request instanceId v = Inl e \<Longrightarrow>
     e = InvalidURL \<or> e = UndefinedProperty"
  by (auto simp: clientResponseLink_def requestUrlText_def newURL_def bindE_def Let_def
      split: option.splits if_splits sum.splits)

lemma getClientResponseLinks_errors:
  "getClientResponseLinks pf clientData request instanceId = Inl e \<Longrightarrow>
     e = InvalidURL \<or> e = UndefinedProperty"
  unfolding getClientResponseLinks_def Let_def bindE_def
  by (auto split: sum.splits dest: clientResponseLink_errors)

lemma createCheckStatusResponse_errors:
  "createCheckStatusResponse pf clientData request instanceId = Inl e \<Longrightarrow>
     e = InvalidURL \<or> e = UndefinedProperty"
  unfolding createCheckStatusResponse_def bindE_def
  by (auto split: sum.splits dest: getClientResponseLinks_errors)

lemma pollLoop_errors:
  "snd (pollLoop pf clientData request instanceId t r world) \<noteq> Some (Inl (TimeoutBelowRetry a b))"
proof (induction world)
  case Nil
  show ?case by simp
next
  case (Cons ob world)
  obtain answer e where ob: "ob = (answer, e)" by (cases ob)
  obtain sent res where g: "getStatus pf clientData instanceId None None answer = (sent, res)"
    by (cases "getStatus pf clientData instanceId None None answer")
  show ?case
  proof (cases res)
    case (Inl x)
    with g getStatus_errors [of pf clientData instanceId None None answer x a b]
    show ?thesis by (simp add: ob)
  next
    case (Inr st)
    with g Cons.IH show ?thesis
      using createCheckStatusResponse_errors [of pf clientData request instanceId]
      by (auto simp: ob Let_def split: option.splits prod.splits)
  qed
qed

lemma pollLoop_begins:
  "prefix (map Sent (fst (getStatus pf clientData instanceId None None answer)))
     (fst (pollLoop pf clientData request instanceId t r ((answer, e) # world)))"
  by (cases "getStatus pf clientData instanceId None None answer")
    (auto simp: Let_def split: sum.splits option.splits prod.splits)

text \<open>
  C1. Let the retry interval be at most the timeout, let every earlier iteration continue
  (its status arrived, did not end the wait, and the clock was below the timeout), and let
  the status \<open>st\<close> arrive in the next iteration. Then the operation returns: the response
  with status 200 whose body is the text of the \<open>output\<close> of \<open>st\<close> when the runtime
  status of \<open>st\<close> is Completed; the response with status 200 whose body is the text of
  \<open>st\<close> when it is Canceled or Terminated; the response with status 500 whose body is the
  text of \<open>st\<close> when it is Failed; and, when it is none of these and the clock has
  reached the timeout, the result of \<open>createCheckStatusResponse\<close> for the same request
  and instance, which, when it is a response, has status 202 and the management links as
  body.
\<close>

theorem wait_first_terminal_status:
  assumes "retryIntervalOf retryArg \<le> timeoutOf timeoutArg"
    and "\<forall>ob \<in> set earlier. continues pf clientData instanceId (timeoutOf timeoutArg) ob"
    and "snd (getStatus pf clientData instanceId None None answer) = Inr st"
  shows
    "(getProp st ''runtimeStatus'' = Some (runtimeStatusValue Completed) \<longrightarrow>
        snd (waitForCompletionOrCreateCheckStatusResponse pf clientData request instanceId
               timeoutArg retryArg (earlier @ (answer, elapsed) # later))
          = Some (Inr (createHttpResponse 200 (getProp st ''output''))))
     \<and> (getProp st ''runtimeStatus'' = Some (runtimeStatusValue Canceled)
          \<or> getProp st ''runtimeStatus'' = Some (runtimeStatusValue Terminated) \<longrightarrow>
        snd (waitForCompletionOrCreateCheckStatusResponse pf clientData request instanceId
               timeoutArg retryArg (earlier @ (answer, elapsed) # later))
          = Some (Inr (createHttpResponse 200 (Some st))))
     \<and> (getProp st ''runtimeStatus'' = Some (runtimeStatusValue Failed) \<longrightarrow>
        snd (waitForCompletionOrCreateCheckStatusResponse pf clientData request instanceId
               timeoutArg retryArg (earlier @ (answer, elapsed) # later))
          = Some (Inr (createHttpResponse 500 (Some st))))
     \<and> (getProp st ''runtimeStatus'' \<notin>
           {Some (runtimeStatusValue Completed), Some (runtimeStatusValue Canceled),
            Some (runtimeStatusValue Terminated), Some (runtimeStatusValue Failed)}
          \<and> timeoutOf timeoutArg \<le> elapsed \<longrightarrow>
        snd (waitForCompletionOrCreateCheckStatusResponse pf clientData request instanceId
               timeoutArg retryArg (earlier @ (answer, elapsed) # later))
          = Some (createCheckStatusResponse pf clientData request instanceId))
     \<and> status (createHttpResponse code b) = code
     \<and> body (createHttpResponse code b)
          = (case b of Some v \<Rightarrow> Text (SerializeJSONProperty v) | None \<Rightarrow> Undefined)
     \<and> (createCheckStatusResponse pf clientData request instanceId = Inr response \<longrightarrow>
          status response = 202
          \<and> (\<exists>payload. getClientResponseLinks pf clientData request instanceId = Inr payload
                \<and> body response = Links payload))"
proof -
  let ?t = "timeoutOf timeoutArg" and ?r = "retryIntervalOf retryArg"
  let ?w = "earlier @ (answer, elapsed) # later"
  obtain sent where g: "getStatus pf clientData instanceId None None answer = (sent, Inr st)"
    using assms(3) by (cases "getStatus pf clientData instanceId None None answer") simp
  have w: "snd (waitForCompletionOrCreateCheckStatusResponse pf clientData request instanceId
                  timeoutArg retryArg ?w)
             = snd (pollLoop pf clientData request instanceId ?t ?r ((answer, elapsed) # later))"
    using assms(1) pollLoop_continued [OF assms(2), of request ?r "(answer, elapsed) # later"]
    by (simp add: waitForCompletionOrCreateCheckStatusResponse_def Let_def)
  note s = pollLoop_step [OF g, of request ?t ?r elapsed later]
  have 1: "getProp st ''runtimeStatus'' = Some (runtimeStatusValue Completed) \<longrightarrow>
      snd (pollLoop pf clientData request instanceId ?t ?r ((answer, elapsed) # later))
        = Some (Inr (createHttpResponse 200 (getProp st ''output'')))"
    using s by (simp add: terminalResponse_Completed)
  have 2: "getProp st ''runtimeStatus'' = Some (runtimeStatusValue Canceled)
          \<or> getProp st ''runtimeStatus'' = Some (runtimeStatusValue Terminated) \<longrightarrow>
      snd (pollLoop pf clientData request instanceId ?t ?r ((answer, elapsed) # later))
        = Some (Inr (createHttpResponse 200 (Some st)))"
    using s terminalResponse_Canceled_Terminated [of st] by auto
  have 3: "getProp st ''runtimeStatus'' = Some (runtimeStatusValue Failed) \<longrightarrow>
      snd (pollLoop pf clientData request instanceId ?t ?r ((answer, elapsed) # later))
        = Some (Inr (createHttpResponse 500 (Some st)))"
    using s by (simp add: terminalResponse_Failed)
  have 4: "getProp st ''runtimeStatus'' \<notin>
           {Some (runtimeStatusValue Completed), Some (runtimeStatusValue Canceled),
            Some (runtimeStatusValue Terminated), Some (runtimeStatusValue Failed)}
          \<and> ?t \<le> elapsed \<longrightarrow>
      snd (pollLoop pf clientData request instanceId ?t ?r ((answer, elapsed) # later))
        = Some (createCheckStatusResponse pf clientData request instanceId)"
    using s terminalResponse_None_iff [of st] by auto
  have 5: "status (createHttpResponse code b) = code"
    by (simp add: createHttpResponse_def Let_def)
  have 6: "body (createHttpResponse code b)
          = (case b of Some v \<Rightarrow> Text (SerializeJSONProperty v) | None \<Rightarrow> Undefined)"
    by (cases b) (simp_all add: createHttpResponse_def JSON_stringify_def)
  have 7: "createCheckStatusResponse pf clientData request instanceId = Inr response \<longrightarrow>
          status response = 202
          \<and> (\<exists>payload. getClientResponseLinks pf clientData request instanceId = Inr payload
                \<and> body response = Links payload)"
    by (cases "getClientResponseLinks pf clientData request instanceId")
      (auto simp: createCheckStatusResponse_def)
  show ?thesis
    unfolding w using 1 2 3 4 5 6 7 by blast
qed

theorem wait_first_terminal_status_witness:
  "snd (waitForCompletionOrCreateCheckStatusResponse demo_platform demo_clientData None ''abc''
          (Some 5000) (Some 1000)
          [(reply 202 running, 5), (reply 202 running, 1010), (reply 200 completed, 2020)])
     = Some (Inr (createHttpResponse 200 (Some (JObj [(''x'', JNum 1)]))))
   \<and> snd (waitForCompletionOrCreateCheckStatusResponse demo_platform demo_clientData None ''abc''
          None None [(reply 202 running, 5), (reply 200 terminated, 1010)])
     = Some (Inr (createHttpResponse 200 (Some terminated)))
   \<and> snd (waitForCompletionOrCreateCheckStatusResponse demo_platform demo_clientData None ''abc''
          None None [(reply 500 failed, 5)])
     = Some (Inr (createHttpResponse 500 (Some failed)))
   \<and> snd (waitForCompletionOrCreateCheckStatusResponse demo_platform demo_clientData None ''abc''
          (Some 2000) (Some 1000)
          [(reply 202 running, 3), (reply 202 running, 1005), (reply 202 running, 2007)])
     = Some (createCheckStatusResponse demo_platform demo_clientData None ''abc'')"
proof -
  note th = wait_first_terminal_status [where pf = demo_platform and clientData = demo_clientData
      and instanceId = "''abc''" and request = None]
  have a: "snd (waitForCompletionOrCreateCheckStatusResponse demo_platform demo_clientData None
                  ''abc'' (Some 5000) (Some 1000)
                  ([(reply 202 running, 5), (reply 202 running, 1010)]
                     @ (reply 200 completed, 2020) # []))
             = Some (Inr (createHttpResponse 200 (Some (JObj [(''x'', JNum 1)]))))"
    using th [where timeoutArg = "Some 5000" and retryArg = "Some 1000"
        and earlier = "[(reply 202 running, 5), (reply 202 running, 1010)]"
        and answer = "reply 200 completed" and st = completed and elapsed = 2020 and later = "[]"]
      demo_getStatus [OF demo_parse(2), of 200] demo_continues demo_terminal
    by (simp add: timeoutOf_def retryIntervalOf_def)
  have b: "snd (waitForCompletionOrCreateCheckStatusResponse demo_platform demo_clientData None
                  ''abc'' None None ([(reply 202 running, 5)] @ (reply 200 terminated, 1010) # []))
             = Some (Inr (createHttpResponse 200 (Some terminated)))"
    using th [where timeoutArg = None and retryArg = None
        and earlier = "[(reply 202 running, 5)]"
        and answer = "reply 200 terminated" and st = terminated and elapsed = 1010
        and later = "[]"]
      demo_getStatus [OF demo_parse(4), of 200] demo_continues demo_terminal
    by (simp add: timeoutOf_def retryIntervalOf_def)
  have c: "snd (waitForCompletionOrCreateCheckStatusResponse demo_platform demo_clientData None
                  ''abc'' None None ([] @ (reply 500 failed, 5) # []))
             = Some (Inr (createHttpResponse 500 (Some failed)))"
    using th [where timeoutArg = None and retryArg = None and earlier = "[]"
        and answer = "reply 500 failed" and st = failed and elapsed = 5 and later = "[]"]
      demo_getStatus [OF demo_parse(3), of 500] demo_terminal
    by (simp add: timeoutOf_def retryIntervalOf_def)
  have d: "snd (waitForCompletionOrCreateCheckStatusResponse demo_platform demo_clientData None
                  ''abc'' (Some 2000) (Some 1000)
                  ([(reply 202 running, 3), (reply 202 running, 1005)]
                     @ (reply 202 running, 2007) # []))
             = Some (createCheckStatusResponse demo_platform demo_clientData None ''abc'')"
    using th [where timeoutArg = "Some 2000" and retryArg = "Some 1000"
        and earlier = "[(reply 202 running, 3), (reply 202 running, 1005)]"
        and answer = "reply 202 running" and st = running and elapsed = 2007 and later = "[]"]
      demo_getStatus [OF demo_parse(1), of 202] demo_continues demo_terminal
    by (simp add: timeoutOf_def retryIntervalOf_def)
  show ?thesis using a b c d by simp
qed

text \<open>
  C4. When the retry interval is above the timeout the operation fails with the
  configuration error and there is no event: no status request has been sent. When it is
  at most the timeout the operation is the loop, its outcome is never that error, and its
  events begin with those of the first status query.
\<close>

theorem wait_precondition:
  "(retryIntervalOf retryArg > timeoutOf timeoutArg \<longrightarrow>
      waitForCompletionOrCreateCheckStatusResponse pf clientData request instanceId
        timeoutArg retryArg world
        = ([], Some (Inl (TimeoutBelowRetry (timeoutOf timeoutArg) (retryIntervalOf retryArg)))))
   \<and> (retryIntervalOf retryArg \<le> timeoutOf timeoutArg \<longrightarrow>
      waitForCompletionOrCreateCheckStatusResponse pf clientData request instanceId
        timeoutArg retryArg world
        = pollLoop pf clientData request instanceId (timeoutOf timeoutArg)
            (retryIntervalOf retryArg) world
      \<and> snd (waitForCompletionOrCreateCheckStatusResponse pf clientData request instanceId
               timeoutArg retryArg world)
          \<noteq> Some (Inl (TimeoutBelowRetry (timeoutOf timeoutArg) (retryIntervalOf retryArg)))
      \<and> prefix (map Sent (fst (getStatus pf clientData instanceId None None answer)))
           (fst (waitForCompletionOrCreateCheckStatusResponse pf clientData request instanceId
                   timeoutArg retryArg ((answer, elapsed) # later))))"
  using pollLoop_errors [of pf clientData request instanceId "timeoutOf timeoutArg"
      "retryIntervalOf retryArg" world]
    pollLoop_begins [of pf clientData instanceId answer request "timeoutOf timeoutArg"
      "retryIntervalOf retryArg" elapsed later]
  by (simp add: waitForCompletionOrCreateCheckStatusResponse_def Let_def)

theorem wait_precondition_witness:
  "waitForCompletionOrCreateCheckStatusResponse demo_platform demo_clientData None ''abc''
     (Some 1000) (Some 5000) [(reply 200 completed, 1)]
     = ([], Some (Inl (TimeoutBelowRetry 1000 5000)))
   \<and> waitForCompletionOrCreateCheckStatusResponse demo_platform demo_clientData None ''abc''
       (Some 1000) (Some 1000) [(reply 200 completed, 1)]
     = pollLoop demo_platform demo_clientData None ''abc'' 1000 1000 [(reply 200 completed, 1)]
   \<and> snd (waitForCompletionOrCreateCheckStatusResponse demo_platform demo_clientData None ''abc''
            (Some 1000) (Some 1000) [(reply 200 completed, 1)])
     \<noteq> Some (Inl (TimeoutBelowRetry 1000 1000))
   \<and> prefix (map Sent (fst (getStatus demo_platform demo_clientData ''abc'' None None
                              (reply 200 completed))))
       (fst (waitForCompletionOrCreateCheckStatusResponse demo_platform demo_clientData None
               ''abc'' (Some 1000) (Some 1000) [(reply 200 completed, 1)]))"
proof -
  note a = wait_precondition [where pf = demo_platform and clientData = demo_clientData
      and request = None and instanceId = "''abc''" and timeoutArg = "Some 1000"
      and retryArg = "Some 5000" and world = "[(reply 200 completed, 1)]",
      unfolded timeoutOf_def retryIntervalOf_def option.case]
  note b = wait_precondition [where pf = demo_platform and clientData = demo_clientData
      and request = None and instanceId = "''abc''" and timeoutArg = "Some 1000"
      and retryArg = "Some 1000" and world = "[(reply 200 completed, 1)]"
      and answer = "reply 200 completed" and elapsed = 1 and later = "[]",
      unfolded timeoutOf_def retryIntervalOf_def option.case]
  have "(5000::real) > 1000" and "(1000::real) \<le> 1000" by simp_all
  with a b show ?thesis by blast
qed

text \<open>
  C5. In an iteration the loop reaches and that continues (the status arrived, it does
  not end the wait, the clock reads \<open>elapsed\<close> below the timeout), the status request
  is followed by one sleep of exactly the smaller of the retry interval and the timeout
  minus \<open>elapsed\<close>, and then by the events of the rest of the loop, which begin with
  the next status request; the sleep ends no later than the timeout.
\<close>

theorem wait_sleep_clamped:
  assumes "retryIntervalOf retryArg \<le> timeoutOf timeoutArg"
    and "\<forall>ob \<in> set earlier. continues pf clientData instanceId (timeoutOf timeoutArg) ob"
    and "continues pf clientData instanceId (timeoutOf timeoutArg) (answer, elapsed)"
  shows "fst (waitForCompletionOrCreateCheckStatusResponse pf clientData request instanceId
                timeoutArg retryArg (earlier @ (answer, elapsed) # later))
           = continuedEvents pf clientData instanceId (timeoutOf timeoutArg)
               (retryIntervalOf retryArg) earlier
             @ map Sent (fst (getStatus pf clientData instanceId None None answer))
             @ Slept (min (retryIntervalOf retryArg) (timeoutOf timeoutArg - elapsed))
             # fst (pollLoop pf clientData request instanceId (timeoutOf timeoutArg)
                      (retryIntervalOf retryArg) later)
         \<and> elapsed + min (retryIntervalOf retryArg) (timeoutOf timeoutArg - elapsed)
             \<le> timeoutOf timeoutArg"
proof -
  let ?t = "timeoutOf timeoutArg" and ?r = "retryIntervalOf retryArg"
  have all: "\<forall>ob \<in> set (earlier @ [(answer, elapsed)]). continues pf clientData instanceId ?t ob"
    using assms(2,3) by simp
  have "pollLoop pf clientData request instanceId ?t ?r ((earlier @ [(answer, elapsed)]) @ later)
          = (continuedEvents pf clientData instanceId ?t ?r (earlier @ [(answer, elapsed)])
               @ fst (pollLoop pf clientData request instanceId ?t ?r later),
             snd (pollLoop pf clientData request instanceId ?t ?r later))"
    by (rule pollLoop_continued [OF all])
  then have "fst (pollLoop pf clientData request instanceId ?t ?r
                    (earlier @ (answer, elapsed) # later))
          = continuedEvents pf clientData instanceId ?t ?r earlier
             @ map Sent (fst (getStatus pf clientData instanceId None None answer))
             @ Slept (min ?r (?t - elapsed))
             # fst (pollLoop pf clientData request instanceId ?t ?r later)"
    by (simp add: continuedEvents_def)
  moreover have "elapsed + min ?r (?t - elapsed) \<le> ?t"
    by (simp add: min_def)
  ultimately show ?thesis
    using assms(1) by (simp add: waitForCompletionOrCreateCheckStatusResponse_def Let_def)
qed

theorem wait_sleep_clamped_witness:
  "fst (waitForCompletionOrCreateCheckStatusResponse demo_platform demo_clientData None ''abc''
          (Some 2500) (Some 1000)
          [(reply 202 running, 5), (reply 202 running, 1010), (reply 202 running, 2020),
           (reply 200 completed, 2510)])
     = continuedEvents demo_platform demo_clientData ''abc'' 2500 1000
         [(reply 202 running, 5), (reply 202 running, 1010)]
       @ map Sent (fst (getStatus demo_platform demo_clientData ''abc'' None None
                          (reply 202 running)))
       @ Slept 480
       # fst (pollLoop demo_platform demo_clientData None ''abc'' 2500 1000
                [(reply 200 completed, 2510)])
   \<and> (2020::real) + min 1000 (2500 - 2020) \<le> 2500"
  using wait_sleep_clamped [where pf = demo_platform and clientData = demo_clientData
      and request = None and instanceId = "''abc''" and timeoutArg = "Some 2500"
      and retryArg = "Some 1000"
      and earlier = "[(reply 202 running, 5), (reply 202 running, 1010)]"
      and answer = "reply 202 running" and elapsed = 2020
      and later = "[(reply 200 completed, 2510)]"]
    demo_continues
  by (simp add: timeoutOf_def retryIntervalOf_def)

subsection \<open>Management links\<close>

lemma indexOf_split_eq:
  "indexOf_split pat s = Some (pre, suf) \<Longrightarrow> s = pre @ pat @ suf"
proof (induction s arbitrary: pre)
  case Nil
  then show ?case by (simp split: if_splits)
next
  case (Cons c cs)
  show ?case
  proof (cases "prefix pat (c # cs)")
    case True
    with Cons.prems show ?thesis
      by (auto simp: prefix_def)
  next
    case False
    with Cons.prems obtain pre' where "indexOf_split pat cs = Some (pre', suf)" and "pre = c # pre'"
      by auto
    with Cons.IH show ?thesis by simp
  qed
qed

lemma indexOf_split_least:
  "indexOf_split pat s = Some (pre, suf) \<Longrightarrow> s = pre' @ pat @ suf' \<Longrightarrow> length pre \<le> length pre'"
proof (induction s arbitrary: pre pre')
  case Nil
  then show ?case by (simp split: if_splits)
next
  case (Cons c cs)
  show ?case
  proof (cases "prefix pat (c # cs)")
    case True
    with Cons.prems(1) have "pre = []" by simp
    then show ?thesis by simp
  next
    case False
    with Cons.prems(1) obtain p where p: "indexOf_split pat cs = Some (p, suf)" and pre: "pre = c # p"
      by auto
    from False Cons.prems(2) have "pre' \<noteq> []"
      by (auto simp: prefix_def)
    then obtain q where q: "pre' = c # q"
      using Cons.prems(2) by (cases pre') auto
    with Cons.prems(2) have "cs = q @ pat @ suf'" by simp
    from Cons.IH [OF p this] show ?thesis by (simp add: pre q)
  qed
qed

lemma indexOf_split_None:
  "indexOf_split pat s = None \<Longrightarrow> \<not> sublist pat s"
proof (induction s)
  case Nil
  then show ?case by (simp split: if_splits)
next
  case (Cons c cs)
  then show ?case
    by (auto simp: sublist_Cons_right split: if_splits)
qed

lemma indexOf_split_sublist:
  "indexOf_split pat s = Some (pre, suf) \<Longrightarrow> sublist pat s"
  by (auto simp: sublist_def dest: indexOf_split_eq)

lemma GetSubstitution_literal:
  "CHR ''$'' \<notin> set replaceValue \<Longrightarrow>
     GetSubstitution matched preceding following captures replaceValue = replaceValue"
  by (induction matched preceding following captures replaceValue rule: GetSubstitution.induct)
    auto

lemma js_replace_first_occurrence:
  assumes "CHR ''$'' \<notin> set v"
  shows "first_occurrence_replaced s pat v (js_replace s pat v)"
proof (cases "indexOf_split pat s")
  case None
  then show ?thesis
    by (simp add: first_occurrence_replaced_def js_replace_def indexOf_split_None)
next
  case (Some a)
  then obtain pre suf where sp: "indexOf_split pat s = Some (pre, suf)" by (cases a) simp
  have "sublist pat s" using sp by (rule indexOf_split_sublist)
  moreover have "s = pre @ pat @ suf" using sp by (rule indexOf_split_eq)
  moreover have "\<forall>pre' suf'. s = pre' @ pat @ suf' \<longrightarrow> length pre \<le> length pre'"
    using sp by (blast dest: indexOf_split_least)
  moreover have "js_replace s pat v = pre @ v @ suf"
    using sp assms by (simp add: js_replace_def GetSubstitution_literal)
  ultimately show ?thesis
    unfolding first_occurrence_replaced_def by auto
qed

lemma hasValidRequestUrl_link:
  "\<not> hasValidRequestUrl request \<Longrightarrow>
     clientResponseLink pf clientData request instanceId v
       = Inr (js_replace v (id' (managementUrls clientData)) instanceId)"
  by (cases request) (auto simp: clientResponseLink_def Let_def)

lemma getClientResponseLinks_plain:
  assumes "\<not> hasValidRequestUrl request"
  shows "getClientResponseLinks pf clientData request instanceId
           = Inr \<lparr>id' = js_replace (id' (managementUrls clientData))
                          (id' (managementUrls clientData)) instanceId,
                  statusQueryGetUri = js_replace (statusQueryGetUri (managementUrls clientData))
                          (id' (managementUrls clientData)) instanceId,
                  sendEventPostUri = js_replace (sendEventPostUri (managementUrls clientData))
                          (id' (managementUrls clientData)) instanceId,
                  terminatePostUri = js_replace (terminatePostUri (managementUrls clientData))
                          (id' (managementUrls clientData)) instanceId,
                  rewindPostUri = js_replace (rewindPostUri (managementUrls clientData))
                          (id' (managementUrls clientData)) instanceId,
                  purgeHistoryDeleteUri =
                    js_replace (purgeHistoryDeleteUri (managementUrls clientData))
                          (id' (managementUrls clientData)) instanceId\<rparr>"
  by (simp add: getClientResponseLinks_def Let_def hasValidRequestUrl_link [OF assms])

lemma js_replace_dollar:
  "js_replace ''http://h/i/INSTANCEID?code=K'' ''INSTANCEID'' ''a$$b$&'' = ''http://h/i/a$bINSTANCEID?code=K''"
  by (simp add: js_replace_def)

lemma clientResponseLink_plain:
  "\<not> (hasValidRequestUrl request \<and> isURL pf v) \<Longrightarrow>
     clientResponseLink pf clientData request instanceId v
       = Inr (js_replace v (id' (managementUrls clientData)) instanceId)"
  by (cases request) (auto simp: clientResponseLink_def Let_def)

lemma clientResponseLink_rewriting:
  assumes "hasValidRequestUrl request" and "isURL pf v"
  shows "clientResponseLink pf clientData request instanceId v
           = (case requestOrigin pf request of
                None \<Rightarrow>
                  (case request of
                     None \<Rightarrow> Inl InvalidURL
                   | Some r \<Rightarrow>
                       (case requestUrlText r of Inl e \<Rightarrow> Inl e | Inr t \<Rightarrow> Inl InvalidURL))
              | Some requestOrigin' \<Rightarrow>
                  (case parseURL pf v of
                     None \<Rightarrow> Inl InvalidURL
                   | Some dataUrl \<Rightarrow>
                       Inr (js_replace (js_replace v (origin dataUrl) requestOrigin')
                              (id' (managementUrls clientData)) instanceId)))"
proof (cases request)
  case None
  with assms show ?thesis by simp
next
  case (Some r)
  with assms show ?thesis
    by (cases "requestUrlText r")
      (auto simp: clientResponseLink_def requestOrigin_def newURL_def split: option.splits)
qed

lemma clientResponseLink_built:
  assumes "CHR ''$'' \<notin> set instanceId"
    and "\<forall>ro. requestOrigin pf request = Some ro \<longrightarrow> CHR ''$'' \<notin> set ro"
    and "clientResponseLink pf clientData request instanceId v = Inr link"
  shows "link_built pf request (id' (managementUrls clientData)) instanceId v link"
proof (cases "hasValidRequestUrl request \<and> isURL pf v")
  case False
  with assms(3) have "link = js_replace v (id' (managementUrls clientData)) instanceId"
    by (simp add: clientResponseLink_plain)
  moreover from False have "origin_rewritten pf request v v"
    unfolding origin_rewritten_def by auto
  ultimately show ?thesis
    unfolding link_built_def using js_replace_first_occurrence [OF assms(1)] by blast
next
  case True
  with assms(3) obtain ro dataUrl where ro: "requestOrigin pf request = Some ro"
    and du: "parseURL pf v = Some dataUrl"
    and link: "link = js_replace (js_replace v (origin dataUrl) ro)
                        (id' (managementUrls clientData)) instanceId"
    by (auto simp: clientResponseLink_rewriting split: option.splits sum.splits)
  from ro assms(2) have "CHR ''$'' \<notin> set ro" by blast
  then have "first_occurrence_replaced v (origin dataUrl) ro (js_replace v (origin dataUrl) ro)"
    by (rule js_replace_first_occurrence)
  with True ro du have "origin_rewritten pf request v (js_replace v (origin dataUrl) ro)"
    unfolding origin_rewritten_def by auto
  then show ?thesis
    unfolding link_built_def link using js_replace_first_occurrence [OF assms(1)] by blast
qed

lemma clientResponseLink_succeeds:
  assumes "hasValidRequestUrl request \<and> isURL pf v \<longrightarrow>
             requestOrigin pf request \<noteq> None \<and> parseURL pf v \<noteq> None"
  shows "\<exists>link. clientResponseLink pf clientData request instanceId v = Inr link"
proof (cases "hasValidRequestUrl request \<and> isURL pf v")
  case False
  then show ?thesis by (simp add: clientResponseLink_plain)
next
  case True
  with assms show ?thesis
    by (auto simp: clientResponseLink_rewriting)
qed

lemma getClientResponseLinks_Inr:
  assumes "getClientResponseLinks pf clientData request instanceId = Inr payload"
  shows "clientResponseLink pf clientData request instanceId
           (id' (managementUrls clientData)) = Inr (id' payload)
       \<and> clientResponseLink pf clientData request instanceId
           (statusQueryGetUri (managementUrls clientData)) = Inr (statusQueryGetUri payload)
       \<and> clientResponseLink pf clientData request instanceId
           (sendEventPostUri (managementUrls clientData)) = Inr (sendEventPostUri payload)
       \<and> clientResponseLink pf clientData request instanceId
           (terminatePostUri (managementUrls clientData)) = Inr (terminatePostUri payload)
       \<and> clientResponseLink pf clientData request instanceId
           (rewindPostUri (managementUrls clientData)) = Inr (rewindPostUri payload)
       \<and> clientResponseLink pf clientData request instanceId
           (purgeHistoryDeleteUri (managementUrls clientData)) = Inr (purgeHistoryDeleteUri payload)"
  using assms unfolding getClientResponseLinks_def Let_def
  by (auto simp: bindE_def split: sum.splits)

lemma getClientResponseLinks_succeeds:
  assumes "\<forall>t \<in> set [id' (managementUrls clientData),
                     statusQueryGetUri (managementUrls clientData),
                     sendEventPostUri (managementUrls clientData),
                     terminatePostUri (managementUrls clientData),
                     rewindPostUri (managementUrls clientData),
                     purgeHistoryDeleteUri (managementUrls clientData)].
             \<exists>link. clientResponseLink pf clientData request instanceId t = Inr link"
  shows "\<exists>payload. getClientResponseLinks pf clientData request instanceId = Inr payload"
  using assms unfolding getClientResponseLinks_def Let_def by auto

text \<open>
  C2, amended. For an instance id without a dollar sign, \<open>createHttpManagementPayload\<close>
  returns a payload in which, for each template, the first occurrence of the id
  placeholder is replaced by the id and nothing else is changed: later occurrences stay,
  and a template without the placeholder is returned as it is. The payload of
  \<open>createCheckStatusResponse\<close> is built in the same way from the templates after host
  rewriting, the origin of the request having no dollar sign either: when the request
  carries a usable URL, each template that is a URL first has the first occurrence of its
  own origin replaced by the origin of the request; without a usable URL the payload is
  that of \<open>createHttpManagementPayload\<close>. \<open>createCheckStatusResponse\<close> returns a
  response whenever the URL of the request and the templates that are URLs can be parsed.
\<close>

theorem management_links_first_occurrence:
  assumes "CHR ''$'' \<notin> set instanceId"
    and "\<forall>ro. requestOrigin pf request = Some ro \<longrightarrow> CHR ''$'' \<notin> set ro"
  shows "(\<exists>payload.
            createHttpManagementPayload pf clientData instanceId = Inr payload
          \<and> first_occurrence_replaced (id' (managementUrls clientData))
                (id' (managementUrls clientData)) instanceId (id' payload)
          \<and> first_occurrence_replaced (statusQueryGetUri (managementUrls clientData))
                (id' (managementUrls clientData)) instanceId (statusQueryGetUri payload)
          \<and> first_occurrence_replaced (sendEventPostUri (managementUrls clientData))
                (id' (managementUrls clientData)) instanceId (sendEventPostUri payload)
          \<and> first_occurrence_replaced (terminatePostUri (managementUrls clientData))
                (id' (managementUrls clientData)) instanceId (terminatePostUri payload)
          \<and> first_occurrence_replaced (rewindPostUri (managementUrls clientData))
                (id' (managementUrls clientData)) instanceId (rewindPostUri payload)
          \<and> first_occurrence_replaced (purgeHistoryDeleteUri (managementUrls clientData))
                (id' (managementUrls clientData)) instanceId (purgeHistoryDeleteUri payload)
          \<and> (\<not> hasValidRequestUrl request \<longrightarrow>
                createCheckStatusResponse pf clientData request instanceId
                  = Inr \<lparr>status = 202, body = Links payload,
                         headers = [(''Content-Type'', HStr ''application/json''),
                                    (''Location'', HStr (statusQueryGetUri payload)),
                                    (''Retry-After'', HNum 10)]\<rparr>))
       \<and> (\<forall>response.
            createCheckStatusResponse pf clientData request instanceId = Inr response \<longrightarrow>
            (\<exists>payload.
               body response = Links payload
             \<and> link_built pf request (id' (managementUrls clientData)) instanceId
                   (id' (managementUrls clientData)) (id' payload)
             \<and> link_built pf request (id' (managementUrls clientData)) instanceId
                   (statusQueryGetUri (managementUrls clientData)) (statusQueryGetUri payload)
             \<and> link_built pf request (id' (managementUrls clientData)) instanceId
                   (sendEventPostUri (managementUrls clientData)) (sendEventPostUri payload)
             \<and> link_built pf request (id' (managementUrls clientData)) instanceId
                   (terminatePostUri (managementUrls clientData)) (terminatePostUri payload)
             \<and> link_built pf request (id' (managementUrls clientData)) instanceId
                   (rewindPostUri (managementUrls clientData)) (rewindPostUri payload)
             \<and> link_built pf request (id' (managementUrls clientData)) instanceId
                   (purgeHistoryDeleteUri (managementUrls clientData)) (purgeHistoryDeleteUri payload)))
       \<and> ((hasValidRequestUrl request \<longrightarrow>
              requestOrigin pf request \<noteq> None
              \<and> (\<forall>t \<in> set [id' (managementUrls clientData),
                              statusQueryGetUri (managementUrls clientData),
                              sendEventPostUri (managementUrls clientData),
                              terminatePostUri (managementUrls clientData),
                              rewindPostUri (managementUrls clientData),
                              purgeHistoryDeleteUri (managementUrls clientData)].
                    isURL pf t \<longrightarrow> parseURL pf t \<noteq> None)) \<longrightarrow>
           (\<exists>response. createCheckStatusResponse pf clientData request instanceId = Inr response))"
proof (intro conjI)
  show "\<exists>payload.
            createHttpManagementPayload pf clientData instanceId = Inr payload
          \<and> first_occurrence_replaced (id' (managementUrls clientData))
                (id' (managementUrls clientData)) instanceId (id' payload)
          \<and> first_occurrence_replaced (statusQueryGetUri (managementUrls clientData))
                (id' (managementUrls clientData)) instanceId (statusQueryGetUri payload)
          \<and> first_occurrence_replaced (sendEventPostUri (managementUrls clientData))
                (id' (managementUrls clientData)) instanceId (sendEventPostUri payload)
          \<and> first_occurrence_replaced (terminatePostUri (managementUrls clientData))
                (id' (managementUrls clientData)) instanceId (terminatePostUri payload)
          \<and> first_occurrence_replaced (rewindPostUri (managementUrls clientData))
                (id' (managementUrls clientData)) instanceId (rewindPostUri payload)
          \<and> first_occurrence_replaced (purgeHistoryDeleteUri (managementUrls clientData))
                (id' (managementUrls clientData)) instanceId (purgeHistoryDeleteUri payload)
          \<and> (\<not> hasValidRequestUrl request \<longrightarrow>
                createCheckStatusResponse pf clientData request instanceId
                  = Inr \<lparr>status = 202, body = Links payload,
                         headers = [(''Content-Type'', HStr ''application/json''),
                                    (''Location'', HStr (statusQueryGetUri payload)),
                                    (''Retry-After'', HNum 10)]\<rparr>)"
    using js_replace_first_occurrence [OF assms(1)]
    by (simp add: createHttpManagementPayload_def createCheckStatusResponse_def
        getClientResponseLinks_plain)
next
  show "\<forall>response.
            createCheckStatusResponse pf clientData request instanceId = Inr response \<longrightarrow>
            (\<exists>payload.
               body response = Links payload
             \<and> link_built pf request (id' (managementUrls clientData)) instanceId
                   (id' (managementUrls clientData)) (id' payload)
             \<and> link_built pf request (id' (managementUrls clientData)) instanceId
                   (statusQueryGetUri (managementUrls clientData)) (statusQueryGetUri payload)
             \<and> link_built pf request (id' (managementUrls clientData)) instanceId
                   (sendEventPostUri (managementUrls clientData)) (sendEventPostUri payload)
             \<and> link_built pf request (id' (managementUrls clientData)) instanceId
                   (terminatePostUri (managementUrls clientData)) (terminatePostUri payload)
             \<and> link_built pf request (id' (managementUrls clientData)) instanceId
                   (rewindPostUri (managementUrls clientData)) (rewindPostUri payload)
             \<and> link_built pf request (id' (managementUrls clientData)) instanceId
                   (purgeHistoryDeleteUri (managementUrls clientData)) (purgeHistoryDeleteUri payload))"
  proof (intro allI impI)
    fix response
    assume r: "createCheckStatusResponse pf clientData request instanceId = Inr response"
    then obtain payload
      where p: "getClientResponseLinks pf clientData request instanceId = Inr payload"
        and b: "body response = Links payload"
      by (cases "getClientResponseLinks pf clientData request instanceId")
        (auto simp: createCheckStatusResponse_def)
    note l = getClientResponseLinks_Inr [OF p]
    note k = clientResponseLink_built [OF assms(1) assms(2)]
    from l have "link_built pf request (id' (managementUrls clientData)) instanceId
                   (id' (managementUrls clientData)) (id' payload)
             \<and> link_built pf request (id' (managementUrls clientData)) instanceId
                   (statusQueryGetUri (managementUrls clientData)) (statusQueryGetUri payload)
             \<and> link_built pf request (id' (managementUrls clientData)) instanceId
                   (sendEventPostUri (managementUrls clientData)) (sendEventPostUri payload)
             \<and> link_built pf request (id' (managementUrls clientData)) instanceId
                   (terminatePostUri (managementUrls clientData)) (terminatePostUri payload)
             \<and> link_built pf request (id' (managementUrls clientData)) instanceId
                   (rewindPostUri (managementUrls clientData)) (rewindPostUri payload)
             \<and> link_built pf request (id' (managementUrls clientData)) instanceId
                   (purgeHistoryDeleteUri (managementUrls clientData)) (purgeHistoryDeleteUri payload)"
      by (intro conjI k) simp_all
    with b show "\<exists>payload.
               body response = Links payload
             \<and> link_built pf request (id' (managementUrls clientData)) instanceId
                   (id' (managementUrls clientData)) (id' payload)
             \<and> link_built pf request (id' (managementUrls clientData)) instanceId
                   (statusQueryGetUri (managementUrls clientData)) (statusQueryGetUri payload)
             \<and> link_built pf request (id' (managementUrls clientData)) instanceId
                   (sendEventPostUri (managementUrls clientData)) (sendEventPostUri payload)
             \<and> link_built pf request (id' (managementUrls clientData)) instanceId
                   (terminatePostUri (managementUrls clientData)) (terminatePostUri payload)
             \<and> link_built pf request (id' (managementUrls clientData)) instanceId
                   (rewindPostUri (managementUrls clientData)) (rewindPostUri payload)
             \<and> link_built pf request (id' (managementUrls clientData)) instanceId
                   (purgeHistoryDeleteUri (managementUrls clientData)) (purgeHistoryDeleteUri payload)"
      by blast
  qed
next
  show "(hasValidRequestUrl request \<longrightarrow>
              requestOrigin pf request \<noteq> None
              \<and> (\<forall>t \<in> set [id' (managementUrls clientData),
                              statusQueryGetUri (managementUrls clientData),
                              sendEventPostUri (managementUrls clientData),
                              terminatePostUri (managementUrls clientData),
                              rewindPostUri (managementUrls clientData),
                              purgeHistoryDeleteUri (managementUrls clientData)].
                    isURL pf t \<longrightarrow> parseURL pf t \<noteq> None)) \<longrightarrow>
           (\<exists>response. createCheckStatusResponse pf clientData request instanceId = Inr response)"
  proof
    assume a: "hasValidRequestUrl request \<longrightarrow>
              requestOrigin pf request \<noteq> None
              \<and> (\<forall>t \<in> set [id' (managementUrls clientData),
                              statusQueryGetUri (managementUrls clientData),
                              sendEventPostUri (managementUrls clientData),
                              terminatePostUri (managementUrls clientData),
                              rewindPostUri (managementUrls clientData),
                              purgeHistoryDeleteUri (managementUrls clientData)].
                    isURL pf t \<longrightarrow> parseURL pf t \<noteq> None)"
    have "\<forall>t \<in> set [id' (managementUrls clientData),
                     statusQueryGetUri (managementUrls clientData),
                     sendEventPostUri (managementUrls clientData),
                     terminatePostUri (managementUrls clientData),
                     rewindPostUri (managementUrls clientData),
                     purgeHistoryDeleteUri (managementUrls clientData)].
             \<exists>link. clientResponseLink pf clientData request instanceId t = Inr link"
    proof
      fix t
      assume "t \<in> set [id' (managementUrls clientData),
                     statusQueryGetUri (managementUrls clientData),
                     sendEventPostUri (managementUrls clientData),
                     terminatePostUri (managementUrls clientData),
                     rewindPostUri (managementUrls clientData),
                     purgeHistoryDeleteUri (managementUrls clientData)]"
      with a have "hasValidRequestUrl request \<and> isURL pf t \<longrightarrow>
             requestOrigin pf request \<noteq> None \<and> parseURL pf t \<noteq> None"
        by blast
      then show "\<exists>link. clientResponseLink pf clientData request instanceId t = Inr link"
        by (rule clientResponseLink_succeeds)
    qed
    from getClientResponseLinks_succeeds [OF this]
    show "\<exists>response. createCheckStatusResponse pf clientData request instanceId = Inr response"
      by (auto simp: createCheckStatusResponse_def)
  qed
qed

lemma demo_request_origin:
  "requestOrigin demo_platform (Some demo_request) = Some ''http://g''"
  by (simp add: requestOrigin_def requestUrlText_def demo_simps)

lemma demo_payload:
  "createHttpManagementPayload demo_platform demo_clientData ''abc''
       = Inr \<lparr>id' = ''abc'',
              statusQueryGetUri = ''http://h/i/abc?code=K'',
              sendEventPostUri = ''http://h/i/abc/raiseEvent/{eventName}?code=K'',
              terminatePostUri = ''http://h/i/abc/terminate?reason={text}'',
              rewindPostUri = ''http://h/i/abc/rewind?reason={text}'',
              purgeHistoryDeleteUri = ''http://h/i/abc?code=K''\<rparr>"
  by (simp add: createHttpManagementPayload_def getClientResponseLinks_def
      clientResponseLink_def js_replace_def demo_clientData_def)

lemma twice_payload:
  "createHttpManagementPayload demo_platform twice_clientData ''abc''
       = Inr \<lparr>id' = ''abc'',
              statusQueryGetUri = ''http://h/i/abc?id=INSTANCEID'',
              sendEventPostUri = ''http://h/i/abc/raiseEvent/{eventName}?code=K'',
              terminatePostUri = ''http://h/i/abc/terminate?reason={text}'',
              rewindPostUri = ''http://h/i/abc/rewind?reason={text}'',
              purgeHistoryDeleteUri = ''http://h/i/abc?code=K''\<rparr>"
  by (simp add: createHttpManagementPayload_def getClientResponseLinks_def
      clientResponseLink_def js_replace_def demo_clientData_def twice_clientData_def)

lemma demo_links_rewritten:
  "getClientResponseLinks demo_platform demo_clientData (Some demo_request) ''abc''
       = Inr \<lparr>id' = ''abc'',
                       statusQueryGetUri = ''http://g/i/abc?code=K'',
                       sendEventPostUri = ''http://g/i/abc/raiseEvent/{eventName}?code=K'',
                       terminatePostUri = ''http://g/i/abc/terminate?reason={text}'',
                       rewindPostUri = ''http://g/i/abc/rewind?reason={text}'',
                       purgeHistoryDeleteUri = ''http://g/i/abc?code=K''\<rparr>"
  by (simp add: getClientResponseLinks_def clientResponseLink_def requestUrlText_def
      newURL_def js_replace_def demo_simps)

theorem management_links_first_occurrence_witness:
  "CHR ''$'' \<notin> set ''abc''
   \<and> requestOrigin demo_platform (Some demo_request) = Some ''http://g''
   \<and> createHttpManagementPayload demo_platform demo_clientData ''abc''
       = Inr \<lparr>id' = ''abc'',
              statusQueryGetUri = ''http://h/i/abc?code=K'',
              sendEventPostUri = ''http://h/i/abc/raiseEvent/{eventName}?code=K'',
              terminatePostUri = ''http://h/i/abc/terminate?reason={text}'',
              rewindPostUri = ''http://h/i/abc/rewind?reason={text}'',
              purgeHistoryDeleteUri = ''http://h/i/abc?code=K''\<rparr>
   \<and> first_occurrence_replaced ''http://h/i/INSTANCEID?code=K'' ''INSTANCEID'' ''abc''
       ''http://h/i/abc?code=K''
   \<and> first_occurrence_replaced ''http://h/i/INSTANCEID?id=INSTANCEID'' ''INSTANCEID'' ''abc''
       ''http://h/i/abc?id=INSTANCEID''
   \<and> createCheckStatusResponse demo_platform demo_clientData None ''abc''
       = Inr \<lparr>status = 202,
              body = Links \<lparr>id' = ''abc'',
                       statusQueryGetUri = ''http://h/i/abc?code=K'',
                       sendEventPostUri = ''http://h/i/abc/raiseEvent/{eventName}?code=K'',
                       terminatePostUri = ''http://h/i/abc/terminate?reason={text}'',
                       rewindPostUri = ''http://h/i/abc/rewind?reason={text}'',
                       purgeHistoryDeleteUri = ''http://h/i/abc?code=K''\<rparr>,
              headers = [(''Content-Type'', HStr ''application/json''),
                         (''Location'', HStr ''http://h/i/abc?code=K''),
                         (''Retry-After'', HNum 10)]\<rparr>
   \<and> createCheckStatusResponse demo_platform demo_clientData (Some demo_request) ''abc''
       = Inr \<lparr>status = 202,
              body = Links \<lparr>id' = ''abc'',
                       statusQueryGetUri = ''http://g/i/abc?code=K'',
                       sendEventPostUri = ''http://g/i/abc/raiseEvent/{eventName}?code=K'',
                       terminatePostUri = ''http://g/i/abc/terminate?reason={text}'',
                       rewindPostUri = ''http://g/i/abc/rewind?reason={text}'',
                       purgeHistoryDeleteUri = ''http://g/i/abc?code=K''\<rparr>,
              headers = [(''Content-Type'', HStr ''application/json''),
                         (''Location'', HStr ''http://g/i/abc?code=K''),
                         (''Retry-After'', HNum 10)]\<rparr>
   \<and> link_built demo_platform (Some demo_request) ''INSTANCEID'' ''abc''
       ''http://h/i/INSTANCEID/terminate?reason={text}'' ''http://g/i/abc/terminate?reason={text}''"
proof -
  have d: "CHR ''$'' \<notin> set ''abc''" by simp
  have n: "\<forall>ro. requestOrigin demo_platform None = Some ro \<longrightarrow> CHR ''$'' \<notin> set ro"
    by (simp add: requestOrigin_def)
  have o: "\<forall>ro. requestOrigin demo_platform (Some demo_request) = Some ro \<longrightarrow> CHR ''$'' \<notin> set ro"
    by (simp add: demo_request_origin)
  have g: "createCheckStatusResponse demo_platform demo_clientData (Some demo_request) ''abc''
       = Inr \<lparr>status = 202,
              body = Links \<lparr>id' = ''abc'',
                       statusQueryGetUri = ''http://g/i/abc?code=K'',
                       sendEventPostUri = ''http://g/i/abc/raiseEvent/{eventName}?code=K'',
                       terminatePostUri = ''http://g/i/abc/terminate?reason={text}'',
                       rewindPostUri = ''http://g/i/abc/rewind?reason={text}'',
                       purgeHistoryDeleteUri = ''http://g/i/abc?code=K''\<rparr>,
              headers = [(''Content-Type'', HStr ''application/json''),
                         (''Location'', HStr ''http://g/i/abc?code=K''),
                         (''Retry-After'', HNum 10)]\<rparr>"
    by (simp add: createCheckStatusResponse_def demo_links_rewritten)
  show ?thesis
    using management_links_first_occurrence [OF d n, of demo_clientData]
      management_links_first_occurrence [OF d n, of twice_clientData]
      management_links_first_occurrence [OF d o, of demo_clientData]
      d demo_request_origin demo_payload twice_payload g
    by (simp add: demo_clientData_def twice_clientData_def)
qed

text \<open>
  C2 as stated fails twice. With a template in which the placeholder occurs twice, the
  second occurrence is still in the link. And the payload of
  \<open>createCheckStatusResponse\<close> for a request that came in on another origin has that
  origin in its links: a part of each URL other than the placeholder is altered.
\<close>

theorem management_links_later_occurrence_and_origin:
  "createHttpManagementPayload demo_platform twice_clientData ''abc''
     = Inr \<lparr>id' = ''abc'',
              statusQueryGetUri = ''http://h/i/abc?id=INSTANCEID'',
              sendEventPostUri = ''http://h/i/abc/raiseEvent/{eventName}?code=K'',
              terminatePostUri = ''http://h/i/abc/terminate?reason={text}'',
              rewindPostUri = ''http://h/i/abc/rewind?reason={text}'',
              purgeHistoryDeleteUri = ''http://h/i/abc?code=K''\<rparr>
   \<and> createCheckStatusResponse demo_platform demo_clientData (Some demo_request) ''abc''
     = Inr \<lparr>status = 202,
              body = Links \<lparr>id' = ''abc'',
                       statusQueryGetUri = ''http://g/i/abc?code=K'',
                       sendEventPostUri = ''http://g/i/abc/raiseEvent/{eventName}?code=K'',
                       terminatePostUri = ''http://g/i/abc/terminate?reason={text}'',
                       rewindPostUri = ''http://g/i/abc/rewind?reason={text}'',
                       purgeHistoryDeleteUri = ''http://g/i/abc?code=K''\<rparr>,
              headers = [(''Content-Type'', HStr ''application/json''),
                         (''Location'', HStr ''http://g/i/abc?code=K''),
                         (''Retry-After'', HNum 10)]\<rparr>"
  by (simp add: twice_payload createCheckStatusResponse_def demo_links_rewritten)

subsection \<open>Headers of the requests\<close>

lemma utf8_length_ascii: "is_ascii s \<Longrightarrow> utf8_length s = length s"
  by (induction s) (simp_all add: is_ascii_def utf8_length_def)

lemma callWebhook_request:
  assumes "r \<in> set (fst (callWebhook pf u m input t answer))"
  shows "IRequestOptions.headers (options r)
           = [(''Content-Type'', HStr ''application/json''),
              (''Content-Length'',
                 HNum (case input of Some v \<Rightarrow> int (length (SerializeJSONProperty v)) | None \<Rightarrow> 0))]
         \<and> written r
           = (case input of
                Some v \<Rightarrow> if m = ''POST'' \<and> SerializeJSONProperty v \<noteq> []
                          then Some (SerializeJSONProperty v) else None
              | None \<Rightarrow> None)"
  using assms
  by (cases input)
    (auto simp: callWebhook_def Let_def JSON_stringify_def split: if_splits sum.splits option.splits)

lemma decimal_nonempty: "decimal n \<noteq> []"
  by (subst decimal.simps) simp

lemma SerializeJSONProperty_nonempty: "SerializeJSONProperty v \<noteq> []"
  by (cases v) (simp_all add: Number_toString_def decimal_nonempty QuoteJSONString_def)

lemma post_content_length_ascii:
  assumes "r \<in> set (fst (post pf u (Some v) t answer))"
    and "is_ascii (SerializeJSONProperty v)"
  shows "map_of (IRequestOptions.headers (options r)) ''Content-Length''
           = Some (HNum (int (utf8_length (SerializeJSONProperty v))))
         \<and> written r = Some (SerializeJSONProperty v)"
  using callWebhook_request [of r pf u "''POST''" "Some v" t answer] assms
  by (simp add: post_def utf8_length_ascii SerializeJSONProperty_nonempty)

text \<open>
  C9 at a payload outside ASCII: for the input string of the single character U+00E9
  the JSON text has three code units and takes four bytes on the wire; the request
  carries \<open>Content-Length: 3\<close> and the text written to it is four bytes long.
\<close>

theorem post_content_length_counts_code_units:
  "map (\<lambda>r. map_of (IRequestOptions.headers (options r)) ''Content-Length'')
       (fst (post demo_platform (demo_URL ''/i/abc/raiseEvent/go'' ''?code=K'')
               (Some (JStr [CHR 0xE9])) None answer))
     = [Some (HNum 3)]
   \<and> map (\<lambda>r. map_option utf8_length (written r))
       (fst (post demo_platform (demo_URL ''/i/abc/raiseEvent/go'' ''?code=K'')
               (Some (JStr [CHR 0xE9])) None answer))
     = [Some 4]"
  by (cases answer)
    (auto simp: post_def callWebhook_def Let_def demo_URL_def demo_URL_on_def utf8_length_def
      stringify_simps
      split: option.splits)

subsection \<open>Headers of the responses\<close>

lemma pollLoop_responses:
  "snd (pollLoop pf clientData request instanceId t r world) = Some (Inr response) \<Longrightarrow>
     (\<exists>b. response = createHttpResponse 200 b) \<or> (\<exists>b. response = createHttpResponse 500 b)
     \<or> createCheckStatusResponse pf clientData request instanceId = Inr response"
proof (induction world)
  case Nil
  then show ?case by simp
next
  case (Cons ob world)
  obtain answer e where ob: "ob = (answer, e)" by (cases ob)
  obtain sent res where g: "getStatus pf clientData instanceId None None answer = (sent, res)"
    by (cases "getStatus pf clientData instanceId None None answer")
  show ?case
  proof (cases res)
    case (Inl x)
    with g Cons.prems show ?thesis by (simp add: ob)
  next
    case (Inr st)
    show ?thesis
    proof (cases "terminalResponse st")
      case None
      with g Inr Cons.prems Cons.IH show ?thesis
        by (auto simp: ob Let_def split: if_splits prod.splits)
    next
      case (Some resp)
      with g Inr Cons.prems have "response = resp" by (simp add: ob)
      with Some show ?thesis
        by (auto simp: terminalResponse_def Let_def split: if_splits)
    qed
  qed
qed

lemma createHttpResponse_headers:
  "map_of (IHttpResponse.headers (createHttpResponse code b)) ''Content-Type'' = Some (HStr ''application/json'')
   \<and> status (createHttpResponse code b) = code
   \<and> (case body (createHttpResponse code b) of
         Text t \<Rightarrow>
           map_of (IHttpResponse.headers (createHttpResponse code b)) ''Content-Length''
             = Some (HNum (int (length t)))
       | Undefined \<Rightarrow>
           map_of (IHttpResponse.headers (createHttpResponse code b)) ''Content-Length'' = Some (HNum 0)
       | Links payload \<Rightarrow> False)"
  by (cases b) (simp_all add: createHttpResponse_def JSON_stringify_def)

lemma createCheckStatusResponse_headers:
  assumes "createCheckStatusResponse pf clientData request instanceId = Inr response"
  shows "status response = 202
       \<and> IHttpResponse.headers response
           = [(''Content-Type'', HStr ''application/json''),
              (''Location'',
                 HStr (case body response of
                         Links payload \<Rightarrow> statusQueryGetUri payload
                       | Text t \<Rightarrow> []
                       | Undefined \<Rightarrow> [])),
              (''Retry-After'', HNum 10)]
       \<and> (\<exists>payload. body response = Links payload)"
  using assms
  by (cases "getClientResponseLinks pf clientData request instanceId")
    (auto simp: createCheckStatusResponse_def)

lemma demo_links:
  "getClientResponseLinks demo_platform demo_clientData None ''abc''
     = Inr \<lparr>id' = ''abc'',
            statusQueryGetUri = ''http://h/i/abc?code=K'',
            sendEventPostUri = ''http://h/i/abc/raiseEvent/{eventName}?code=K'',
            terminatePostUri = ''http://h/i/abc/terminate?reason={text}'',
            rewindPostUri = ''http://h/i/abc/rewind?reason={text}'',
            purgeHistoryDeleteUri = ''http://h/i/abc?code=K''\<rparr>"
  by (simp add: getClientResponseLinks_def clientResponseLink_def js_replace_def
      demo_clientData_def)

lemma demo_wait_completed:
  "snd (waitForCompletionOrCreateCheckStatusResponse demo_platform demo_clientData None ''abc''
          None None [(reply 200 completed, 1)])
     = Some (Inr (createHttpResponse 200 (Some (JObj [(''x'', JNum 1)]))))"
proof -
  obtain sent where "getStatus demo_platform demo_clientData ''abc'' None None (reply 200 completed)
      = (sent, Inr completed)"
    using demo_getStatus [OF demo_parse(2), of 200]
    by (cases "getStatus demo_platform demo_clientData ''abc'' None None (reply 200 completed)")
      simp
  then show ?thesis
    by (simp add: waitForCompletionOrCreateCheckStatusResponse_def timeoutOf_def
        retryIntervalOf_def terminalResponse_def completed_def)
qed

lemma demo_wait_timeout:
  "snd (waitForCompletionOrCreateCheckStatusResponse demo_platform demo_clientData None ''abc''
          (Some 2000) (Some 1000) [(reply 202 running, 2007)])
     = Some (createCheckStatusResponse demo_platform demo_clientData None ''abc'')"
proof -
  obtain sent where "getStatus demo_platform demo_clientData ''abc'' None None (reply 202 running)
      = (sent, Inr running)"
    using demo_getStatus [OF demo_parse(1), of 202]
    by (cases "getStatus demo_platform demo_clientData ''abc'' None None (reply 202 running)")
      simp
  then show ?thesis
    by (simp add: waitForCompletionOrCreateCheckStatusResponse_def timeoutOf_def
        retryIntervalOf_def terminalResponse_def running_def)
qed

text \<open>
  C10, amended. A response of the polling operation has the content type
  \<open>application/json\<close> and the status 200, 500 or 202. With status 200 or 500 its body
  is a text or undefined; the \<open>Content-Length\<close> is the size of the text when the text
  is ASCII, and 0 when the body is undefined. With status 202 the body is the object of
  management links, \<open>Location\<close> is its status-query URL, \<open>Retry-After\<close> is 10, and
  there is no \<open>Content-Length\<close> header.
\<close>

theorem wait_response_headers:
  assumes "snd (waitForCompletionOrCreateCheckStatusResponse pf clientData request instanceId
                  timeoutArg retryArg world) = Some (Inr response)"
  shows "map_of (IHttpResponse.headers response) ''Content-Type'' = Some (HStr ''application/json'')
       \<and> (status response = 200 \<or> status response = 500 \<or> status response = 202)
       \<and> (status response \<noteq> 202 \<longrightarrow>
            (case body response of
               Text t \<Rightarrow>
                 is_ascii t \<longrightarrow>
                   map_of (IHttpResponse.headers response) ''Content-Length'' = Some (HNum (int (utf8_length t)))
             | Undefined \<Rightarrow> map_of (IHttpResponse.headers response) ''Content-Length'' = Some (HNum 0)
             | Links payload \<Rightarrow> False))
       \<and> (status response = 202 \<longrightarrow>
            (\<exists>payload. body response = Links payload
               \<and> map_of (IHttpResponse.headers response) ''Location'' = Some (HStr (statusQueryGetUri payload)))
            \<and> map_of (IHttpResponse.headers response) ''Retry-After'' = Some (HNum 10)
            \<and> map_of (IHttpResponse.headers response) ''Content-Length'' = None)"
proof -
  have p: "snd (pollLoop pf clientData request instanceId (timeoutOf timeoutArg)
                  (retryIntervalOf retryArg) world) = Some (Inr response)"
    using assms
    by (simp add: waitForCompletionOrCreateCheckStatusResponse_def Let_def split: if_splits)
  from pollLoop_responses [OF p] consider
      b where "response = createHttpResponse 200 b"
    | b where "response = createHttpResponse 500 b"
    | "createCheckStatusResponse pf clientData request instanceId = Inr response"
    by blast
  then show ?thesis
  proof cases
    case 1
    show ?thesis
      using createHttpResponse_headers [of 200 b] utf8_length_ascii
      by (auto simp: 1 split: response_body.splits)
  next
    case 2
    show ?thesis
      using createHttpResponse_headers [of 500 b] utf8_length_ascii
      by (auto simp: 2 split: response_body.splits)
  next
    case 3
    from createCheckStatusResponse_headers [OF 3] show ?thesis
      by auto
  qed
qed

theorem wait_response_headers_witness:
  "map_of (IHttpResponse.headers (createHttpResponse 200 (Some (JObj [(''x'', JNum 1)]))))
       ''Content-Type'' = Some (HStr ''application/json'')
   \<and> map_of (IHttpResponse.headers (createHttpResponse 200 (Some (JObj [(''x'', JNum 1)]))))
       ''Content-Length'' = Some (HNum 7)
   \<and> utf8_length (SerializeJSONProperty (JObj [(''x'', JNum 1)])) = 7
   \<and> map_sum (\<lambda>e. e) (\<lambda>r. map_of (IHttpResponse.headers r) ''Content-Type'')
         (createCheckStatusResponse demo_platform demo_clientData None ''abc'')
       = Inr (Some (HStr ''application/json''))
   \<and> map_sum (\<lambda>e. e) (\<lambda>r. map_of (IHttpResponse.headers r) ''Location'')
         (createCheckStatusResponse demo_platform demo_clientData None ''abc'')
       = Inr (Some (HStr ''http://h/i/abc?code=K''))
   \<and> map_sum (\<lambda>e. e) (\<lambda>r. map_of (IHttpResponse.headers r) ''Retry-After'')
         (createCheckStatusResponse demo_platform demo_clientData None ''abc'')
       = Inr (Some (HNum 10))"
proof -
  let ?r = "createHttpResponse 200 (Some (JObj [(''x'', JNum 1)]))"
  have b: "body ?r = Text (SerializeJSONProperty (JObj [(''x'', JNum 1)]))"
    by (simp add: createHttpResponse_def JSON_stringify_def)
  have s: "status ?r = 200"
    by (simp add: createHttpResponse_def Let_def)
  have a: "is_ascii (SerializeJSONProperty (JObj [(''x'', JNum 1)]))"
    by (simp add: is_ascii_def stringify_simps)
  have n: "utf8_length (SerializeJSONProperty (JObj [(''x'', JNum 1)])) = 7"
    by (simp add: utf8_length_def stringify_simps)
  obtain late where c: "createCheckStatusResponse demo_platform demo_clientData None ''abc''
      = Inr late" and l: "status late = 202"
    and p: "body late = Links \<lparr>id' = ''abc'',
                          statusQueryGetUri = ''http://h/i/abc?code=K'',
                          sendEventPostUri = ''http://h/i/abc/raiseEvent/{eventName}?code=K'',
                          terminatePostUri = ''http://h/i/abc/terminate?reason={text}'',
                          rewindPostUri = ''http://h/i/abc/rewind?reason={text}'',
                          purgeHistoryDeleteUri = ''http://h/i/abc?code=K''\<rparr>"
    by (simp add: createCheckStatusResponse_def demo_links)
  have t: "snd (waitForCompletionOrCreateCheckStatusResponse demo_platform demo_clientData None
                  ''abc'' (Some 2000) (Some 1000) [(reply 202 running, 2007)])
             = Some (Inr late)"
    by (simp add: demo_wait_timeout c)
  show ?thesis
    using wait_response_headers [OF demo_wait_completed] wait_response_headers [OF t] a n
    by (simp add: b s c l p)
qed

text \<open>
  C10 as stated fails: the 202 response the polling operation returns at the timeout has
  no \<open>Content-Length\<close> header.
\<close>

theorem check_status_response_without_content_length:
  "snd (waitForCompletionOrCreateCheckStatusResponse demo_platform demo_clientData None ''abc''
          (Some 2000) (Some 1000) [(reply 202 running, 2007)])
     = Some (Inr \<lparr>status = 202,
                  body = Links \<lparr>id' = ''abc'',
                           statusQueryGetUri = ''http://h/i/abc?code=K'',
                           sendEventPostUri = ''http://h/i/abc/raiseEvent/{eventName}?code=K'',
                           terminatePostUri = ''http://h/i/abc/terminate?reason={text}'',
                           rewindPostUri = ''http://h/i/abc/rewind?reason={text}'',
                           purgeHistoryDeleteUri = ''http://h/i/abc?code=K''\<rparr>,
                  headers = [(''Content-Type'', HStr ''application/json''),
                             (''Location'', HStr ''http://h/i/abc?code=K''),
                             (''Retry-After'', HNum 10)]\<rparr>)
   \<and> map_of [(''Content-Type'', HStr ''application/json''),
              (''Location'', HStr ''http://h/i/abc?code=K''),
              (''Retry-After'', HNum 10)] ''Content-Length'' = None"
  by (simp add: demo_wait_timeout createCheckStatusResponse_def demo_links)

end
